theory Spec2Isabelle
  imports Complex_Main "HOL-Library.AList"
begin

section \<open>JavaScript values\<close>

text \<open>
  The tracing layer of \<^verbatim>\<open>src/src/posthog-llm.ts\<close> handles caller-supplied payloads as opaque
  JavaScript values. A number is modelled as a rational (the measured latency is the exact
  quotient; IEEE rounding, \<^verbatim>\<open>NaN\<close> and the infinities are left out); \<^verbatim>\<open>undefined\<close> and an
  absent optional field are both \<open>None\<close>. Objects are values: the code never changes a
  properties or metadata object in place, it builds a new one by spread and assigns it.
\<close>

type_synonym number = rat

datatype jsval =
    JNull
  | JBool bool
  | JNum number
  | JStr string
  | JArr "jsval list"
  | JObj "(string \<times> jsval) list"

text \<open>\<^verbatim>\<open>Record<string, any>\<close>: an object, its own keys in insertion order.\<close>

type_synonym jsobj = "(string \<times> jsval) list"

text \<open>\<^verbatim>\<open>Record<string, string>\<close>: the custom properties of a unit.\<close>

type_synonym props = "string \<rightharpoonup> string"

text \<open>
  \<^verbatim>\<open>Error | string\<close>. An \<open>ErrorObject\<close> is any value whose \<^verbatim>\<open>typeof\<close> is
  \<^verbatim>\<open>"object"\<close>, given by the own enumerable keys that \<^verbatim>\<open>JSON.stringify\<close> sees.
\<close>

datatype error_value = ErrorObject jsobj | ErrorString string

text \<open>\<^verbatim>\<open>string | string[]\<close>, the input of an embedding.\<close>

datatype embedding_input = Text string | Texts "string list"

text \<open>A value of the emitted property map (\<^verbatim>\<open>Record<string, unknown>\<close>).\<close>

datatype propval = PString string | PNumber number | PBoolean bool | PUndefined

text \<open>A thrown \<^verbatim>\<open>Error\<close>, with its message.\<close>

datatype error = Error string

subsection \<open>Truthiness\<close>

fun truthy :: "jsval \<Rightarrow> bool" where
  "truthy JNull = False"
| "truthy (JBool b) = b"
| "truthy (JNum n) = (n \<noteq> 0)"
| "truthy (JStr s) = (s \<noteq> [])"
| "truthy (JArr xs) = True"
| "truthy (JObj kvs) = True"

text \<open>\<^verbatim>\<open>if (x)\<close> for an optional value of type \<^verbatim>\<open>any\<close>.\<close>

definition truthy_any :: "jsval option \<Rightarrow> bool" where
  "truthy_any x = (case x of None \<Rightarrow> False | Some v \<Rightarrow> truthy v)"

text \<open>\<^verbatim>\<open>if (s)\<close> for an optional string: the empty string is falsy.\<close>

definition truthy_string :: "string option \<Rightarrow> bool" where
  "truthy_string s = (case s of None \<Rightarrow> False | Some x \<Rightarrow> x \<noteq> [])"

text \<open>\<^verbatim>\<open>if (e)\<close> for an optional \<^verbatim>\<open>Error | string\<close>.\<close>

definition truthy_error :: "error_value option \<Rightarrow> bool" where
  "truthy_error e =
     (case e of None \<Rightarrow> False | Some (ErrorObject obj) \<Rightarrow> True | Some (ErrorString s) \<Rightarrow> s \<noteq> [])"

text \<open>\<^verbatim>\<open>a || b\<close> on strings.\<close>

definition or_else :: "string option \<Rightarrow> string \<Rightarrow> string" where
  "or_else a b = (case a of None \<Rightarrow> b | Some x \<Rightarrow> if x \<noteq> [] then x else b)"

text \<open>\<^verbatim>\<open>b || false\<close> on an optional boolean.\<close>

definition or_false :: "bool option \<Rightarrow> bool" where
  "or_false b = (case b of None \<Rightarrow> False | Some x \<Rightarrow> x)"

subsection \<open>Object spread\<close>

text \<open>\<^verbatim>\<open>{ ...p }\<close> for optional custom properties: \<^verbatim>\<open>undefined\<close> spreads to nothing.\<close>

definition spread :: "props option \<Rightarrow> props" where
  "spread p = (case p of None \<Rightarrow> Map.empty | Some m \<Rightarrow> m)"

text \<open>\<^verbatim>\<open>{ ...a, ...b }\<close> on custom properties: the keys of \<open>b\<close> win.\<close>

definition spread2 :: "props option \<Rightarrow> props option \<Rightarrow> props" where
  "spread2 a b = spread a ++ spread b"

text \<open>
  \<^verbatim>\<open>{ ...a, ...b }\<close> on objects: a key of \<open>a\<close> keeps its place and takes the value of
  \<open>b\<close>, a new key of \<open>b\<close> is appended. (JavaScript moves integer-like keys to the front;
  that reordering is left out.)
\<close>

definition spread_obj :: "jsobj option \<Rightarrow> jsobj option \<Rightarrow> jsobj" where
  "spread_obj a b =
     fold (\<lambda>(k, v). AList.update k v)
       (case b of None \<Rightarrow> [] | Some kvs \<Rightarrow> kvs)
       (case a of None \<Rightarrow> [] | Some kvs \<Rightarrow> kvs)"

text \<open>The custom properties as entries of the emitted map.\<close>

definition custom :: "props option \<Rightarrow> (string \<rightharpoonup> propval)" where
  "custom p = (\<lambda>k. map_option PString (spread p k))"

section \<open>The platform and the process-wide client\<close>

text \<open>
  What the code reads from its platform: whether \<^verbatim>\<open>typeof window === "undefined"\<close>
  (server side), two environment variables, and \<^verbatim>\<open>JSON.stringify\<close>, which is taken as
  it is.
\<close>

record env =
  window_undefined :: bool
  NEXT_PUBLIC_POSTHOG_KEY :: "string option"
  NEXT_PUBLIC_POSTHOG_HOST :: "string option"
  JSON_stringify :: "jsval \<Rightarrow> string"

record PostHogLLMOptions =
  o_apiKey :: "string option"
  o_host :: "string option"
  o_defaultPrivacyMode :: "bool option"
  o_defaultDistinctId :: "string option"

text \<open>The \<^verbatim>\<open>posthog.PostHog\<close> object: what it was constructed with.\<close>

record PostHog =
  pc_apiKey :: string
  pc_host :: string
  pc_flushAt :: nat

text \<open>The argument of \<^verbatim>\<open>client.capture\<close>.\<close>

record capture_message =
  c_distinctId :: string
  c_event :: string
  c_properties :: "string \<rightharpoonup> propval"

text \<open>
  The static fields of class \<^verbatim>\<open>PostHogLLM\<close>, and \<open>captured\<close>: every message handed to
  \<^verbatim>\<open>client.capture\<close> so far, oldest first (the event sink).
\<close>

record PostHogLLM =
  client :: "PostHog option"
  options :: PostHogLLMOptions
  captured :: "capture_message list"

definition PostHogLLM_initial :: PostHogLLM where
  "PostHogLLM_initial =
     \<lparr>client = None,
      options = \<lparr>o_apiKey = None, o_host = None, o_defaultPrivacyMode = Some False,
                 o_defaultDistinctId = None\<rparr>,
      captured = []\<rparr>"

definition getDefaultDistinctId :: "PostHogLLM \<Rightarrow> string option" where
  "getDefaultDistinctId st = o_defaultDistinctId (options st)"

text \<open>
  \<^verbatim>\<open>{ ...this.options, ...options }\<close>: a supplied field replaces the stored one. A field
  supplied as \<^verbatim>\<open>undefined\<close> is not told from an absent one here (in JavaScript it would
  replace the stored value by \<^verbatim>\<open>undefined\<close>).
\<close>

definition merge_options :: "PostHogLLMOptions \<Rightarrow> PostHogLLMOptions option \<Rightarrow> PostHogLLMOptions" where
  "merge_options old new =
     (case new of
        None \<Rightarrow> old
      | Some n \<Rightarrow>
          \<lparr>o_apiKey = (case o_apiKey n of None \<Rightarrow> o_apiKey old | Some v \<Rightarrow> Some v),
           o_host = (case o_host n of None \<Rightarrow> o_host old | Some v \<Rightarrow> Some v),
           o_defaultPrivacyMode =
             (case o_defaultPrivacyMode n of None \<Rightarrow> o_defaultPrivacyMode old | Some v \<Rightarrow> Some v),
           o_defaultDistinctId =
             (case o_defaultDistinctId n of None \<Rightarrow> o_defaultDistinctId old | Some v \<Rightarrow> Some v)\<rparr>)"

definition init :: "env \<Rightarrow> PostHogLLMOptions option \<Rightarrow> PostHogLLM \<Rightarrow> PostHogLLM" where
  "init e opts st =
     (let st1 = st\<lparr>options := merge_options (options st) opts\<rparr> in
      if window_undefined e then
        st1\<lparr>client := Some
          \<lparr>pc_apiKey =
             or_else (case opts of None \<Rightarrow> None | Some n \<Rightarrow> o_apiKey n)
               (or_else (NEXT_PUBLIC_POSTHOG_KEY e) []),
           pc_host =
             or_else (case opts of None \<Rightarrow> None | Some n \<Rightarrow> o_host n)
               (or_else (NEXT_PUBLIC_POSTHOG_HOST e) ''https://us.i.posthog.com''),
           pc_flushAt = 1\<rparr>\<rparr>
      else st1)"

definition getClient :: "env \<Rightarrow> PostHogLLM \<Rightarrow> PostHog option \<times> PostHogLLM" where
  "getClient e st =
     (let st1 = (if client st = None \<and> window_undefined e then init e None st else st)
      in (client st1, st1))"

text \<open>\<^verbatim>\<open>client.capture(msg)\<close>: the message reaches the sink.\<close>

definition capture :: "capture_message \<Rightarrow> PostHogLLM \<Rightarrow> PostHogLLM" where
  "capture msg st = st\<lparr>captured := captured st @ [msg]\<rparr>"

section \<open>Traces\<close>

record TraceOptions =
  to_id :: "string option"
  to_name :: string
  to_inputState :: "jsobj option"
  to_outputState :: "jsobj option"
  to_privacy :: "bool option"
  to_userEmail :: "string option"
  to_distinctId :: "string option"
  to_metadata :: "jsobj option"
  to_properties :: "props option"
  to_isError :: "bool option"
  to_error :: "error_value option"

text \<open>\<^verbatim>\<open>Partial<TraceOptions>\<close>, the argument of \<^verbatim>\<open>Trace.update\<close>.\<close>

record TraceUpdate =
  tu_id :: "string option"
  tu_name :: "string option"
  tu_inputState :: "jsobj option"
  tu_outputState :: "jsobj option"
  tu_privacy :: "bool option"
  tu_userEmail :: "string option"
  tu_distinctId :: "string option"
  tu_metadata :: "jsobj option"
  tu_properties :: "props option"
  tu_isError :: "bool option"
  tu_error :: "error_value option"

text \<open>
  \<^verbatim>\<open>TraceEndOptions\<close>. \<^verbatim>\<open>Trace.end\<close> is defined on every extension of the record, as
  TypeScript accepts an object with further properties.
\<close>

record TraceEndOptions =
  te_outputState :: "jsobj option"
  te_error :: "error_value option"
  te_isError :: "bool option"

record Trace =
  t_id :: string
  t_name :: string
  t_startTime :: int
  t_inputState :: "jsobj option"
  t_outputState :: "jsobj option"
  t_privacy :: bool
  t_distinctId :: string
  t_metadata :: "jsobj option"
  t_properties :: "props option"
  t_isError :: bool
  t_error :: "error_value option"

text \<open>
  The constructor. \<open>now\<close> is what \<^verbatim>\<open>Date.now()\<close> returns and \<open>uuid\<close> what
  \<^verbatim>\<open>uuidv4()\<close> returns when it is called.
\<close>

definition Trace_make :: "int \<Rightarrow> string \<Rightarrow> TraceOptions \<Rightarrow> string \<Rightarrow> Trace" where
  "Trace_make now uuid opts distinctId =
     \<lparr>t_id = or_else (to_id opts) uuid,
      t_name = to_name opts,
      t_startTime = now,
      t_inputState = to_inputState opts,
      t_outputState = to_outputState opts,
      t_privacy = (case to_privacy opts of None \<Rightarrow> False | Some p \<Rightarrow> p),
      t_distinctId = distinctId,
      t_metadata = to_metadata opts,
      t_properties = to_properties opts,
      t_isError = or_false (to_isError opts),
      t_error = to_error opts\<rparr>"

definition Trace_new :: "int \<Rightarrow> string \<Rightarrow> TraceOptions \<Rightarrow> error + Trace" where
  "Trace_new now uuid opts =
     (if truthy_string (to_userEmail opts) then
        Inr (Trace_make now uuid opts (the (to_userEmail opts)))
      else if truthy_string (to_distinctId opts) then
        Inr (Trace_make now uuid opts (the (to_distinctId opts)))
      else Inl (Error ''A user email (userEmail) is required for PostHog tracing''))"

text \<open>\<^verbatim>\<open>PostHogLLM.trace\<close>: only the privacy flag takes a process-wide default.\<close>

definition trace :: "int \<Rightarrow> string \<Rightarrow> PostHogLLM \<Rightarrow> TraceOptions \<Rightarrow> error + Trace" where
  "trace now uuid st opts =
     Trace_new now uuid
       (opts\<lparr>to_privacy := Some
          (case to_privacy opts of
             Some p \<Rightarrow> p
           | None \<Rightarrow> (case o_defaultPrivacyMode (options st) of Some d \<Rightarrow> d | None \<Rightarrow> False))\<rparr>)"

definition Trace_update :: "Trace \<Rightarrow> TraceUpdate \<Rightarrow> Trace" where
  "Trace_update this opts =
     (let t1 = (if truthy_string (tu_name opts) then this\<lparr>t_name := the (tu_name opts)\<rparr> else this);
          t2 = (case tu_inputState opts of None \<Rightarrow> t1 | Some s \<Rightarrow> t1\<lparr>t_inputState := Some s\<rparr>);
          t3 = (case tu_outputState opts of None \<Rightarrow> t2 | Some s \<Rightarrow> t2\<lparr>t_outputState := Some s\<rparr>);
          t4 = (case tu_properties opts of
                  None \<Rightarrow> t3
                | Some p \<Rightarrow> t3\<lparr>t_properties := Some (spread2 (t_properties t3) (Some p))\<rparr>);
          t5 = (case tu_metadata opts of
                  None \<Rightarrow> t4
                | Some m \<Rightarrow> t4\<lparr>t_metadata := Some (spread_obj (t_metadata t4) (Some m))\<rparr>);
          t6 = (case tu_privacy opts of None \<Rightarrow> t5 | Some p \<Rightarrow> t5\<lparr>t_privacy := p\<rparr>);
          t7 = (case tu_isError opts of None \<Rightarrow> t6 | Some b \<Rightarrow> t6\<lparr>t_isError := b\<rparr>)
      in if truthy_error (tu_error opts) then t7\<lparr>t_error := tu_error opts\<rparr> else t7)"

text \<open>The measured latency, in seconds.\<close>

definition elapsed :: "int \<Rightarrow> int \<Rightarrow> number" where
  "elapsed startTime endTime = of_int (endTime - startTime) / 1000"

text \<open>\<^verbatim>\<open>typeof e === "object" ? JSON.stringify(e) : e.toString()\<close>.\<close>

definition error_string :: "env \<Rightarrow> error_value \<Rightarrow> string" where
  "error_string e err =
     (case err of ErrorObject obj \<Rightarrow> JSON_stringify e (JObj obj) | ErrorString s \<Rightarrow> s)"

text \<open>\<^verbatim>\<open>Trace.end\<close>, lines 260 to 264: the overrides of the end options.\<close>

definition Trace_end_apply :: "Trace \<Rightarrow> 'z TraceEndOptions_scheme option \<Rightarrow> Trace" where
  "Trace_end_apply this opts =
     (case opts of
        None \<Rightarrow> this
      | Some opt \<Rightarrow>
          (let t1 = (case te_outputState opt of None \<Rightarrow> this | Some s \<Rightarrow> this\<lparr>t_outputState := Some s\<rparr>);
               t2 = (if truthy_error (te_error opt) then t1\<lparr>t_error := te_error opt\<rparr> else t1)
           in case te_isError opt of None \<Rightarrow> t2 | Some b \<Rightarrow> t2\<lparr>t_isError := b\<rparr>))"

text \<open>\<^verbatim>\<open>Trace.end\<close>, lines 268 to 292: the property map of the event.\<close>

definition Trace_properties :: "env \<Rightarrow> Trace \<Rightarrow> number \<Rightarrow> (string \<rightharpoonup> propval)" where
  "Trace_properties e this latency =
     (let p0 = [''$ai_trace_id'' \<mapsto> PString (t_id this),
                ''$ai_span_id'' \<mapsto> PString (t_id this),
                ''$ai_span_name'' \<mapsto> PString (t_name this),
                ''$ai_latency'' \<mapsto> PNumber latency,
                ''$ai_is_error'' \<mapsto> PBoolean (t_isError this)] ++ custom (t_properties this);
          p1 = (if \<not> t_privacy this then
                  (let q = (case t_inputState this of
                              None \<Rightarrow> p0
                            | Some s \<Rightarrow> p0(''$ai_input_state'' \<mapsto> PString (JSON_stringify e (JObj s))))
                   in case t_outputState this of
                        None \<Rightarrow> q
                      | Some s \<Rightarrow> q(''$ai_output_state'' \<mapsto> PString (JSON_stringify e (JObj s))))
                else p0);
          p2 = (case t_metadata this of
                  None \<Rightarrow> p1
                | Some m \<Rightarrow> p1(''$ai_metadata'' \<mapsto> PString (JSON_stringify e (JObj m))))
      in if t_isError this \<and> truthy_error (t_error this)
         then p2(''$ai_error'' \<mapsto> PString (error_string e (the (t_error this))))
         else p2)"

text \<open>\<^verbatim>\<open>Trace.end\<close>: returns the trace, and the client state with the captured event.\<close>

definition Trace_end ::
  "env \<Rightarrow> int \<Rightarrow> Trace \<Rightarrow> 'z TraceEndOptions_scheme option \<Rightarrow> PostHogLLM \<Rightarrow> Trace \<times> PostHogLLM" where
  "Trace_end e now this opts st =
     (let latency = elapsed (t_startTime this) now;
          this1 = Trace_end_apply this opts;
          (cl, st1) = getClient e st
      in case cl of
           None \<Rightarrow> (this1, st1)
         | Some c \<Rightarrow>
             (this1,
              capture \<lparr>c_distinctId = t_distinctId this1, c_event = ''$ai_trace'',
                       c_properties = Trace_properties e this1 latency\<rparr> st1))"

section \<open>Spans\<close>

record SpanOptions =
  so_id :: "string option"
  so_name :: string
  so_inputState :: "jsobj option"
  so_outputState :: "jsobj option"
  so_metadata :: "jsobj option"
  so_properties :: "props option"
  so_error :: "error_value option"
  so_isError :: "bool option"
  so_distinctId :: "string option"

text \<open>\<^verbatim>\<open>Partial<SpanOptions>\<close>, the argument of \<^verbatim>\<open>Span.update\<close>.\<close>

record SpanUpdate =
  su_id :: "string option"
  su_name :: "string option"
  su_inputState :: "jsobj option"
  su_outputState :: "jsobj option"
  su_metadata :: "jsobj option"
  su_properties :: "props option"
  su_error :: "error_value option"
  su_isError :: "bool option"
  su_distinctId :: "string option"

record SpanEndOptions =
  se_outputState :: "jsobj option"
  se_error :: "error_value option"
  se_isError :: "bool option"

record Span =
  s_id :: string
  s_distinctId :: string
  s_traceId :: string
  s_parentId :: "string option"
  s_name :: string
  s_startTime :: int
  s_inputState :: "jsobj option"
  s_outputState :: "jsobj option"
  s_metadata :: "jsobj option"
  s_properties :: "props option"
  s_isError :: bool
  s_error :: "error_value option"

definition Span_new :: "int \<Rightarrow> string \<Rightarrow> string \<Rightarrow> string option \<Rightarrow> SpanOptions \<Rightarrow> error + Span" where
  "Span_new now uuid traceId parentId opts =
     (if \<not> truthy_string (so_distinctId opts) then
        Inl (Error ''Span must have a distinctId (passed from trace)'')
      else
        Inr \<lparr>s_id = or_else (so_id opts) uuid,
             s_distinctId = the (so_distinctId opts),
             s_traceId = traceId,
             s_parentId = parentId,
             s_name = so_name opts,
             s_startTime = now,
             s_inputState = so_inputState opts,
             s_outputState = so_outputState opts,
             s_metadata = so_metadata opts,
             s_properties = so_properties opts,
             s_isError = or_false (so_isError opts),
             s_error = so_error opts\<rparr>)"

text \<open>\<^verbatim>\<open>Span.update\<close> reads neither the properties nor the distinctId of its argument.\<close>

definition Span_update :: "Span \<Rightarrow> SpanUpdate \<Rightarrow> Span" where
  "Span_update this opts =
     (let s1 = (if truthy_string (su_name opts) then this\<lparr>s_name := the (su_name opts)\<rparr> else this);
          s2 = (case su_inputState opts of None \<Rightarrow> s1 | Some x \<Rightarrow> s1\<lparr>s_inputState := Some x\<rparr>);
          s3 = (case su_outputState opts of None \<Rightarrow> s2 | Some x \<Rightarrow> s2\<lparr>s_outputState := Some x\<rparr>);
          s4 = (case su_metadata opts of
                  None \<Rightarrow> s3
                | Some m \<Rightarrow> s3\<lparr>s_metadata := Some (spread_obj (s_metadata s3) (Some m))\<rparr>);
          s5 = (case su_isError opts of None \<Rightarrow> s4 | Some b \<Rightarrow> s4\<lparr>s_isError := b\<rparr>)
      in if truthy_error (su_error opts) then s5\<lparr>s_error := su_error opts\<rparr> else s5)"

text \<open>\<^verbatim>\<open>Span.end\<close>, lines 414 to 418.\<close>

definition Span_end_apply :: "Span \<Rightarrow> 'z SpanEndOptions_scheme option \<Rightarrow> Span" where
  "Span_end_apply this opts =
     (case opts of
        None \<Rightarrow> this
      | Some opt \<Rightarrow>
          (let s1 = (case se_outputState opt of None \<Rightarrow> this | Some x \<Rightarrow> this\<lparr>s_outputState := Some x\<rparr>);
               s2 = (if truthy_error (se_error opt) then s1\<lparr>s_error := se_error opt\<rparr> else s1)
           in case se_isError opt of None \<Rightarrow> s2 | Some b \<Rightarrow> s2\<lparr>s_isError := b\<rparr>))"

text \<open>\<^verbatim>\<open>Span.end\<close>, lines 422 to 443.\<close>

definition Span_properties :: "env \<Rightarrow> Span \<Rightarrow> number \<Rightarrow> (string \<rightharpoonup> propval)" where
  "Span_properties e this latency =
     (let p0 = [''$ai_trace_id'' \<mapsto> PString (s_traceId this),
                ''$ai_span_id'' \<mapsto> PString (s_id this),
                ''$ai_span_name'' \<mapsto> PString (s_name this),
                ''$ai_parent_id'' \<mapsto> PString (or_else (s_parentId this) (s_traceId this)),
                ''$ai_latency'' \<mapsto> PNumber latency,
                ''$ai_is_error'' \<mapsto> PBoolean (s_isError this)] ++ custom (s_properties this);
          p1 = (case s_inputState this of
                  None \<Rightarrow> p0
                | Some x \<Rightarrow> p0(''$ai_input_state'' \<mapsto> PString (JSON_stringify e (JObj x))));
          p2 = (case s_outputState this of
                  None \<Rightarrow> p1
                | Some x \<Rightarrow> p1(''$ai_output_state'' \<mapsto> PString (JSON_stringify e (JObj x))));
          p3 = (case s_metadata this of
                  None \<Rightarrow> p2
                | Some m \<Rightarrow> p2(''$ai_metadata'' \<mapsto> PString (JSON_stringify e (JObj m))))
      in if s_isError this \<and> truthy_error (s_error this)
         then p3(''$ai_error'' \<mapsto> PString (error_string e (the (s_error this))))
         else p3)"

definition Span_end ::
  "env \<Rightarrow> int \<Rightarrow> Span \<Rightarrow> 'z SpanEndOptions_scheme option \<Rightarrow> PostHogLLM \<Rightarrow> Span \<times> PostHogLLM" where
  "Span_end e now this opts st =
     (let latency = elapsed (s_startTime this) now;
          this1 = Span_end_apply this opts;
          (cl, st1) = getClient e st
      in case cl of
           None \<Rightarrow> (this1, st1)
         | Some c \<Rightarrow>
             (this1,
              capture \<lparr>c_distinctId = s_distinctId this1, c_event = ''$ai_span'',
                       c_properties = Span_properties e this1 latency\<rparr> st1))"

text \<open>
  \<^verbatim>\<open>Trace.span\<close> and \<^verbatim>\<open>Span.span\<close>: the options handed to the constructor carry the
  parent's distinctId and the merged properties, whatever the caller's options held.
\<close>

definition Trace_span :: "int \<Rightarrow> string \<Rightarrow> Trace \<Rightarrow> SpanOptions \<Rightarrow> error + Span" where
  "Trace_span now uuid this opts =
     Span_new now uuid (t_id this) None
       (opts\<lparr>so_distinctId := Some (t_distinctId this),
             so_properties := Some (spread2 (t_properties this) (so_properties opts))\<rparr>)"

definition Span_span :: "int \<Rightarrow> string \<Rightarrow> Span \<Rightarrow> SpanOptions \<Rightarrow> error + Span" where
  "Span_span now uuid this opts =
     Span_new now uuid (s_traceId this) (Some (s_id this))
       (opts\<lparr>so_distinctId := Some (s_distinctId this),
             so_properties := Some (spread2 (s_properties this) (so_properties opts))\<rparr>)"

section \<open>Generations\<close>

record GenerationOptions =
  go_name :: string
  go_model :: string
  go_provider :: string
  go_input :: jsval
  go_output :: "jsval option"
  go_inputTokens :: "number option"
  go_outputTokens :: "number option"
  go_latency :: "number option"
  go_httpStatus :: "number option"
  go_baseUrl :: "string option"
  go_metadata :: "jsobj option"
  go_properties :: "props option"
  go_error :: "error_value option"
  go_isError :: "bool option"
  go_distinctId :: "string option"

text \<open>\<^verbatim>\<open>Partial<GenerationOptions>\<close>, the argument of \<^verbatim>\<open>Generation.update\<close>.\<close>

record GenerationUpdate =
  gu_name :: "string option"
  gu_model :: "string option"
  gu_provider :: "string option"
  gu_input :: "jsval option"
  gu_output :: "jsval option"
  gu_inputTokens :: "number option"
  gu_outputTokens :: "number option"
  gu_latency :: "number option"
  gu_httpStatus :: "number option"
  gu_baseUrl :: "string option"
  gu_metadata :: "jsobj option"
  gu_properties :: "props option"
  gu_error :: "error_value option"
  gu_isError :: "bool option"
  gu_distinctId :: "string option"

text \<open>\<^verbatim>\<open>Partial<GenerationEndOptions>\<close>.\<close>

record GenerationEndOptions =
  ge_output :: "jsval option"
  ge_inputTokens :: "number option"
  ge_outputTokens :: "number option"
  ge_latency :: "number option"
  ge_httpStatus :: "number option"
  ge_error :: "error_value option"
  ge_isError :: "bool option"

record Generation =
  g_traceId :: string
  g_name :: string
  g_distinctId :: string
  g_startTime :: int
  g_model :: string
  g_provider :: string
  g_input :: jsval
  g_output :: "jsval option"
  g_inputTokens :: "number option"
  g_outputTokens :: "number option"
  g_latency :: "number option"
  g_httpStatus :: "number option"
  g_baseUrl :: "string option"
  g_metadata :: "jsobj option"
  g_properties :: "props option"
  g_isError :: bool
  g_error :: "error_value option"

definition Generation_new :: "int \<Rightarrow> string \<Rightarrow> GenerationOptions \<Rightarrow> error + Generation" where
  "Generation_new now traceId opts =
     (if \<not> truthy_string (go_distinctId opts) then
        Inl (Error ''Generation must have a distinctId (passed from trace)'')
      else
        Inr \<lparr>g_traceId = traceId,
             g_name = go_name opts,
             g_distinctId = the (go_distinctId opts),
             g_startTime = now,
             g_model = go_model opts,
             g_provider = go_provider opts,
             g_input = go_input opts,
             g_output = go_output opts,
             g_inputTokens = go_inputTokens opts,
             g_outputTokens = go_outputTokens opts,
             g_latency = None,
             g_httpStatus = go_httpStatus opts,
             g_baseUrl = go_baseUrl opts,
             g_metadata = go_metadata opts,
             g_properties = go_properties opts,
             g_isError = or_false (go_isError opts),
             g_error = go_error opts\<rparr>)"

definition Generation_update :: "Generation \<Rightarrow> GenerationUpdate \<Rightarrow> Generation" where
  "Generation_update this opts =
     (let g1 = (if truthy_string (gu_name opts) then this\<lparr>g_name := the (gu_name opts)\<rparr> else this);
          g2 = (if truthy_string (gu_model opts) then g1\<lparr>g_model := the (gu_model opts)\<rparr> else g1);
          g3 = (if truthy_string (gu_provider opts) then g2\<lparr>g_provider := the (gu_provider opts)\<rparr> else g2);
          g4 = (if truthy_any (gu_input opts) then g3\<lparr>g_input := the (gu_input opts)\<rparr> else g3);
          g5 = (if truthy_any (gu_output opts) then g4\<lparr>g_output := gu_output opts\<rparr> else g4);
          g6 = (case gu_inputTokens opts of None \<Rightarrow> g5 | Some n \<Rightarrow> g5\<lparr>g_inputTokens := Some n\<rparr>);
          g7 = (case gu_outputTokens opts of None \<Rightarrow> g6 | Some n \<Rightarrow> g6\<lparr>g_outputTokens := Some n\<rparr>);
          g8 = (case gu_httpStatus opts of None \<Rightarrow> g7 | Some n \<Rightarrow> g7\<lparr>g_httpStatus := Some n\<rparr>);
          g9 = (if truthy_string (gu_baseUrl opts) then g8\<lparr>g_baseUrl := gu_baseUrl opts\<rparr> else g8);
          g10 = (case gu_metadata opts of
                   None \<Rightarrow> g9
                 | Some m \<Rightarrow> g9\<lparr>g_metadata := Some (spread_obj (g_metadata g9) (Some m))\<rparr>);
          g11 = (case gu_isError opts of None \<Rightarrow> g10 | Some b \<Rightarrow> g10\<lparr>g_isError := b\<rparr>)
      in if truthy_error (gu_error opts) then g11\<lparr>g_error := gu_error opts\<rparr> else g11)"

text \<open>\<^verbatim>\<open>Generation.end\<close>, lines 549 to 562: the latency, then the overrides.\<close>

definition Generation_end_apply :: "int \<Rightarrow> Generation \<Rightarrow> GenerationEndOptions option \<Rightarrow> Generation" where
  "Generation_end_apply now this opts =
     (let g0 = this\<lparr>g_latency := Some
                 (case (case opts of None \<Rightarrow> None | Some opt \<Rightarrow> ge_latency opt) of
                    Some l \<Rightarrow> l
                  | None \<Rightarrow> elapsed (g_startTime this) now)\<rparr>
      in case opts of
           None \<Rightarrow> g0
         | Some opt \<Rightarrow>
             (let g1 = (if truthy_any (ge_output opt) then g0\<lparr>g_output := ge_output opt\<rparr> else g0);
                  g2 = (case ge_outputTokens opt of None \<Rightarrow> g1 | Some n \<Rightarrow> g1\<lparr>g_outputTokens := Some n\<rparr>);
                  g3 = (case ge_httpStatus opt of None \<Rightarrow> g2 | Some n \<Rightarrow> g2\<lparr>g_httpStatus := Some n\<rparr>);
                  g4 = (if truthy_error (ge_error opt) then g3\<lparr>g_error := ge_error opt\<rparr> else g3)
              in case ge_isError opt of None \<Rightarrow> g4 | Some b \<Rightarrow> g4\<lparr>g_isError := b\<rparr>))"

text \<open>Lines 576 to 585: a list is serialized as it is, anything else is wrapped.\<close>

definition output_choices :: "env \<Rightarrow> jsval \<Rightarrow> string" where
  "output_choices e out =
     (case out of
        JArr xs \<Rightarrow> JSON_stringify e (JArr xs)
      | _ \<Rightarrow> JSON_stringify e (JArr [JObj [(''role'', JStr ''assistant''), (''content'', out)]]))"

text \<open>\<^verbatim>\<open>Generation.end\<close>, lines 566 to 600.\<close>

definition Generation_properties :: "env \<Rightarrow> Generation \<Rightarrow> (string \<rightharpoonup> propval)" where
  "Generation_properties e this =
     (let p0 = [''$ai_trace_id'' \<mapsto> PString (g_traceId this),
                ''$ai_model'' \<mapsto> PString (g_model this),
                ''$ai_provider'' \<mapsto> PString (g_provider this),
                ''$ai_input'' \<mapsto> PString (JSON_stringify e (g_input this)),
                ''$ai_latency'' \<mapsto> (case g_latency this of None \<Rightarrow> PUndefined | Some l \<Rightarrow> PNumber l),
                ''$ai_is_error'' \<mapsto> PBoolean (g_isError this)] ++ custom (g_properties this);
          p1 = (if truthy_any (g_output this)
                then p0(''$ai_output_choices'' \<mapsto> PString (output_choices e (the (g_output this))))
                else p0);
          p2 = (case g_inputTokens this of None \<Rightarrow> p1 | Some n \<Rightarrow> p1(''$ai_input_tokens'' \<mapsto> PNumber n));
          p3 = (case g_outputTokens this of None \<Rightarrow> p2 | Some n \<Rightarrow> p2(''$ai_output_tokens'' \<mapsto> PNumber n));
          p4 = (case g_httpStatus this of None \<Rightarrow> p3 | Some n \<Rightarrow> p3(''$ai_http_status'' \<mapsto> PNumber n));
          p5 = (if truthy_string (g_baseUrl this)
                then p4(''$ai_base_url'' \<mapsto> PString (the (g_baseUrl this)))
                else p4);
          p6 = (case g_metadata this of
                  None \<Rightarrow> p5
                | Some m \<Rightarrow> p5(''$ai_metadata'' \<mapsto> PString (JSON_stringify e (JObj m))))
      in if g_isError this \<and> truthy_error (g_error this)
         then p6(''$ai_error'' \<mapsto> PString (error_string e (the (g_error this))))
         else p6)"

definition Generation_end ::
  "env \<Rightarrow> int \<Rightarrow> Generation \<Rightarrow> GenerationEndOptions option \<Rightarrow> PostHogLLM \<Rightarrow> Generation \<times> PostHogLLM" where
  "Generation_end e now this opts st =
     (let this1 = Generation_end_apply now this opts;
          (cl, st1) = getClient e st
      in case cl of
           None \<Rightarrow> (this1, st1)
         | Some c \<Rightarrow>
             (this1,
              capture \<lparr>c_distinctId = g_distinctId this1, c_event = ''$ai_generation'',
                       c_properties = Generation_properties e this1\<rparr> st1))"

definition Trace_generation :: "int \<Rightarrow> Trace \<Rightarrow> GenerationOptions \<Rightarrow> error + Generation" where
  "Trace_generation now this opts =
     Generation_new now (t_id this)
       (opts\<lparr>go_distinctId := Some (t_distinctId this),
             go_properties := Some (spread2 (t_properties this) (go_properties opts))\<rparr>)"

section \<open>Embeddings\<close>

record EmbeddingOptions =
  eo_name :: string
  eo_model :: string
  eo_provider :: string
  eo_input :: embedding_input
  eo_inputTokens :: "number option"
  eo_latency :: "number option"
  eo_httpStatus :: "number option"
  eo_baseUrl :: "string option"
  eo_metadata :: "jsobj option"
  eo_properties :: "props option"
  eo_error :: "error_value option"
  eo_isError :: "bool option"
  eo_distinctId :: "string option"

text \<open>\<^verbatim>\<open>Partial<EmbeddingEndOptions>\<close>.\<close>

record EmbeddingEndOptions =
  ee_inputTokens :: "number option"
  ee_latency :: "number option"
  ee_httpStatus :: "number option"
  ee_error :: "error_value option"
  ee_isError :: "bool option"

record Embedding =
  e_traceId :: string
  e_name :: string
  e_distinctId :: string
  e_startTime :: int
  e_model :: string
  e_provider :: string
  e_input :: embedding_input
  e_inputTokens :: "number option"
  e_latency :: "number option"
  e_httpStatus :: "number option"
  e_baseUrl :: "string option"
  e_metadata :: "jsobj option"
  e_properties :: "props option"
  e_isError :: bool
  e_error :: "error_value option"

definition Embedding_new :: "int \<Rightarrow> string \<Rightarrow> EmbeddingOptions \<Rightarrow> error + Embedding" where
  "Embedding_new now traceId opts =
     (if \<not> truthy_string (eo_distinctId opts) then
        Inl (Error ''Embedding must have a distinctId (passed from trace)'')
      else
        Inr \<lparr>e_traceId = traceId,
             e_name = eo_name opts,
             e_distinctId = the (eo_distinctId opts),
             e_startTime = now,
             e_model = eo_model opts,
             e_provider = eo_provider opts,
             e_input = eo_input opts,
             e_inputTokens = eo_inputTokens opts,
             e_latency = None,
             e_httpStatus = eo_httpStatus opts,
             e_baseUrl = eo_baseUrl opts,
             e_metadata = eo_metadata opts,
             e_properties = eo_properties opts,
             e_isError = or_false (eo_isError opts),
             e_error = eo_error opts\<rparr>)"

text \<open>\<^verbatim>\<open>Embedding.end\<close>, lines 664 to 674.\<close>

definition Embedding_end_apply :: "int \<Rightarrow> Embedding \<Rightarrow> EmbeddingEndOptions option \<Rightarrow> Embedding" where
  "Embedding_end_apply now this opts =
     (let e0 = this\<lparr>e_latency := Some
                 (case (case opts of None \<Rightarrow> None | Some opt \<Rightarrow> ee_latency opt) of
                    Some l \<Rightarrow> l
                  | None \<Rightarrow> elapsed (e_startTime this) now)\<rparr>
      in case opts of
           None \<Rightarrow> e0
         | Some opt \<Rightarrow>
             (let e1 = (case ee_httpStatus opt of None \<Rightarrow> e0 | Some n \<Rightarrow> e0\<lparr>e_httpStatus := Some n\<rparr>);
                  e2 = (if truthy_error (ee_error opt) then e1\<lparr>e_error := ee_error opt\<rparr> else e1)
              in case ee_isError opt of None \<Rightarrow> e2 | Some b \<Rightarrow> e2\<lparr>e_isError := b\<rparr>))"

text \<open>\<^verbatim>\<open>Embedding.end\<close>, lines 678 to 702.\<close>

definition Embedding_properties :: "env \<Rightarrow> Embedding \<Rightarrow> (string \<rightharpoonup> propval)" where
  "Embedding_properties e this =
     (let p0 = [''$ai_trace_id'' \<mapsto> PString (e_traceId this),
                ''$ai_model'' \<mapsto> PString (e_model this),
                ''$ai_provider'' \<mapsto> PString (e_provider this),
                ''$ai_input'' \<mapsto> PString
                   (case e_input this of
                      Text s \<Rightarrow> s
                    | Texts xs \<Rightarrow> JSON_stringify e (JArr (map JStr xs))),
                ''$ai_latency'' \<mapsto> (case e_latency this of None \<Rightarrow> PUndefined | Some l \<Rightarrow> PNumber l),
                ''$ai_is_error'' \<mapsto> PBoolean (e_isError this)] ++ custom (e_properties this);
          p1 = (case e_inputTokens this of None \<Rightarrow> p0 | Some n \<Rightarrow> p0(''$ai_input_tokens'' \<mapsto> PNumber n));
          p2 = (case e_httpStatus this of None \<Rightarrow> p1 | Some n \<Rightarrow> p1(''$ai_http_status'' \<mapsto> PNumber n));
          p3 = (if truthy_string (e_baseUrl this)
                then p2(''$ai_base_url'' \<mapsto> PString (the (e_baseUrl this)))
                else p2);
          p4 = (case e_metadata this of
                  None \<Rightarrow> p3
                | Some m \<Rightarrow> p3(''$ai_metadata'' \<mapsto> PString (JSON_stringify e (JObj m))))
      in if e_isError this \<and> truthy_error (e_error this)
         then p4(''$ai_error'' \<mapsto> PString (error_string e (the (e_error this))))
         else p4)"

definition Embedding_end ::
  "env \<Rightarrow> int \<Rightarrow> Embedding \<Rightarrow> EmbeddingEndOptions option \<Rightarrow> PostHogLLM \<Rightarrow> Embedding \<times> PostHogLLM" where
  "Embedding_end e now this opts st =
     (let this1 = Embedding_end_apply now this opts;
          (cl, st1) = getClient e st
      in case cl of
           None \<Rightarrow> (this1, st1)
         | Some c \<Rightarrow>
             (this1,
              capture \<lparr>c_distinctId = e_distinctId this1, c_event = ''$ai_embedding'',
                       c_properties = Embedding_properties e this1\<rparr> st1))"

definition Trace_embedding :: "int \<Rightarrow> Trace \<Rightarrow> EmbeddingOptions \<Rightarrow> error + Embedding" where
  "Trace_embedding now this opts =
     Embedding_new now (t_id this)
       (opts\<lparr>eo_distinctId := Some (t_distinctId this),
             eo_properties := Some (spread2 (t_properties this) (eo_properties opts))\<rparr>)"

section \<open>A trace and its units under a sequence of calls\<close>

text \<open>
  The objects a program holds: one trace and the spans, generations and embeddings created
  from it, in the order of their creation, with the process-wide client. A call names the
  span, generation or embedding it is made on by its position.
\<close>

record world =
  w_llm :: PostHogLLM
  w_trace :: Trace
  w_spans :: "Span list"
  w_generations :: "Generation list"
  w_embeddings :: "Embedding list"

datatype call =
    Call_Trace_update TraceUpdate
  | Call_Trace_end "TraceEndOptions option"
  | Call_Trace_span SpanOptions
  | Call_Trace_generation GenerationOptions
  | Call_Trace_embedding EmbeddingOptions
  | Call_Span_update nat SpanUpdate
  | Call_Span_end nat "SpanEndOptions option"
  | Call_Span_span nat SpanOptions
  | Call_Generation_update nat GenerationUpdate
  | Call_Generation_end nat "GenerationEndOptions option"
  | Call_Embedding_end nat "EmbeddingEndOptions option"

text \<open>
  One call, made when the clock shows \<open>now\<close> and the next identifier of the allocator is
  \<open>uuid\<close>. A constructor that throws leaves the objects as they are; a position that
  names no object is no call.
\<close>

fun step :: "env \<Rightarrow> int \<Rightarrow> string \<Rightarrow> call \<Rightarrow> world \<Rightarrow> world" where
  "step e now uuid (Call_Trace_update opts) w = w\<lparr>w_trace := Trace_update (w_trace w) opts\<rparr>"
| "step e now uuid (Call_Trace_end opts) w =
     (let (t, st) = Trace_end e now (w_trace w) opts (w_llm w) in w\<lparr>w_trace := t, w_llm := st\<rparr>)"
| "step e now uuid (Call_Trace_span opts) w =
     (case Trace_span now uuid (w_trace w) opts of
        Inl err \<Rightarrow> w
      | Inr s \<Rightarrow> w\<lparr>w_spans := w_spans w @ [s]\<rparr>)"
| "step e now uuid (Call_Trace_generation opts) w =
     (case Trace_generation now (w_trace w) opts of
        Inl err \<Rightarrow> w
      | Inr g \<Rightarrow> w\<lparr>w_generations := w_generations w @ [g]\<rparr>)"
| "step e now uuid (Call_Trace_embedding opts) w =
     (case Trace_embedding now (w_trace w) opts of
        Inl err \<Rightarrow> w
      | Inr x \<Rightarrow> w\<lparr>w_embeddings := w_embeddings w @ [x]\<rparr>)"
| "step e now uuid (Call_Span_update i opts) w =
     (if i < length (w_spans w)
      then w\<lparr>w_spans := (w_spans w)[i := Span_update (w_spans w ! i) opts]\<rparr>
      else w)"
| "step e now uuid (Call_Span_end i opts) w =
     (if i < length (w_spans w)
      then (let (s, st) = Span_end e now (w_spans w ! i) opts (w_llm w)
            in w\<lparr>w_spans := (w_spans w)[i := s], w_llm := st\<rparr>)
      else w)"
| "step e now uuid (Call_Span_span i opts) w =
     (if i < length (w_spans w)
      then (case Span_span now uuid (w_spans w ! i) opts of
              Inl err \<Rightarrow> w
            | Inr s \<Rightarrow> w\<lparr>w_spans := w_spans w @ [s]\<rparr>)
      else w)"
| "step e now uuid (Call_Generation_update i opts) w =
     (if i < length (w_generations w)
      then w\<lparr>w_generations := (w_generations w)[i := Generation_update (w_generations w ! i) opts]\<rparr>
      else w)"
| "step e now uuid (Call_Generation_end i opts) w =
     (if i < length (w_generations w)
      then (let (g, st) = Generation_end e now (w_generations w ! i) opts (w_llm w)
            in w\<lparr>w_generations := (w_generations w)[i := g], w_llm := st\<rparr>)
      else w)"
| "step e now uuid (Call_Embedding_end i opts) w =
     (if i < length (w_embeddings w)
      then (let (x, st) = Embedding_end e now (w_embeddings w ! i) opts (w_llm w)
            in w\<lparr>w_embeddings := (w_embeddings w)[i := x], w_llm := st\<rparr>)
      else w)"

fun run :: "env \<Rightarrow> (int \<times> string \<times> call) list \<Rightarrow> world \<Rightarrow> world" where
  "run e [] w = w"
| "run e ((now, uuid, c) # cs) w = run e cs (step e now uuid c w)"

text \<open>The objects right after the trace is constructed.\<close>

definition start :: "PostHogLLM \<Rightarrow> Trace \<Rightarrow> world" where
  "start st t = \<lparr>w_llm = st, w_trace = t, w_spans = [], w_generations = [], w_embeddings = []\<rparr>"

section \<open>Sample values\<close>

text \<open>
  A server-side platform. \<open>sample_stringify\<close> stands in for \<^verbatim>\<open>JSON.stringify\<close> where a
  concrete platform is needed; every theorem below holds for any function in its place.
\<close>

definition sample_stringify :: "jsval \<Rightarrow> string" where
  "sample_stringify v =
     (case v of
        JNull \<Rightarrow> ''null''
      | JBool b \<Rightarrow> (if b then ''true'' else ''false'')
      | JNum n \<Rightarrow> ''<number>''
      | JStr s \<Rightarrow> s
      | JArr xs \<Rightarrow> ''[...]''
      | JObj kvs \<Rightarrow> ''{...}'')"

definition sample_env :: env where
  "sample_env =
     \<lparr>window_undefined = True, NEXT_PUBLIC_POSTHOG_KEY = None, NEXT_PUBLIC_POSTHOG_HOST = None,
      JSON_stringify = sample_stringify\<rparr>"

text \<open>The trace of \<^verbatim>\<open>src/examples/basic.ts\<close>, constructed at time 0.\<close>

definition sample_trace :: Trace where
  "sample_trace =
     \<lparr>t_id = ''trace-1'', t_name = ''example-operation'', t_startTime = 0,
      t_inputState = Some [(''query'', JStr ''What is the weather like today?'')],
      t_outputState = None, t_privacy = False, t_distinctId = ''user-123'',
      t_metadata = Some [(''source'', JStr ''example'')], t_properties = None,
      t_isError = False, t_error = None\<rparr>"

definition sample_span_options :: SpanOptions where
  "sample_span_options =
     \<lparr>so_id = None, so_name = ''preprocess-query'',
      so_inputState = Some [(''rawQuery'', JStr ''What is the weather like today?'')],
      so_outputState = None, so_metadata = None, so_properties = None, so_error = None,
      so_isError = None, so_distinctId = None\<rparr>"

definition sample_span :: Span where
  "sample_span =
     \<lparr>s_id = ''span-1'', s_distinctId = ''user-123'', s_traceId = ''trace-1'', s_parentId = None,
      s_name = ''preprocess-query'', s_startTime = 0,
      s_inputState = Some [(''rawQuery'', JStr ''What is the weather like today?'')],
      s_outputState = None, s_metadata = None, s_properties = Some Map.empty,
      s_isError = False, s_error = None\<rparr>"

definition sample_generation_options :: GenerationOptions where
  "sample_generation_options =
     \<lparr>go_name = ''weather-response'', go_model = ''gpt-4'', go_provider = ''openai'',
      go_input = JObj [(''query'', JStr ''get_weather(today)'')], go_output = None,
      go_inputTokens = Some 5, go_outputTokens = None, go_latency = None, go_httpStatus = None,
      go_baseUrl = None, go_metadata = None, go_properties = None, go_error = None,
      go_isError = None, go_distinctId = None\<rparr>"

definition sample_generation :: Generation where
  "sample_generation =
     \<lparr>g_traceId = ''trace-1'', g_name = ''weather-response'', g_distinctId = ''user-123'',
      g_startTime = 0, g_model = ''gpt-4'', g_provider = ''openai'',
      g_input = JObj [(''query'', JStr ''get_weather(today)'')], g_output = None,
      g_inputTokens = Some 5, g_outputTokens = None, g_latency = None, g_httpStatus = None,
      g_baseUrl = None, g_metadata = None, g_properties = Some Map.empty, g_isError = False,
      g_error = None\<rparr>"

definition sample_embedding_options :: EmbeddingOptions where
  "sample_embedding_options =
     \<lparr>eo_name = ''text-embedding'', eo_model = ''text-embedding-3-small'', eo_provider = ''openai'',
      eo_input = Text ''What is the capital of France?'', eo_inputTokens = Some 10,
      eo_latency = None, eo_httpStatus = None, eo_baseUrl = None, eo_metadata = None,
      eo_properties = None, eo_error = None, eo_isError = None, eo_distinctId = None\<rparr>"

definition sample_embedding :: Embedding where
  "sample_embedding =
     \<lparr>e_traceId = ''trace-1'', e_name = ''text-embedding'', e_distinctId = ''user-123'',
      e_startTime = 0, e_model = ''text-embedding-3-small'', e_provider = ''openai'',
      e_input = Text ''What is the capital of France?'', e_inputTokens = Some 10,
      e_latency = None, e_httpStatus = None, e_baseUrl = None, e_metadata = None,
      e_properties = Some Map.empty, e_isError = False, e_error = None\<rparr>"

text \<open>End options that set nothing.\<close>

definition no_trace_end :: TraceEndOptions where
  "no_trace_end = \<lparr>te_outputState = None, te_error = None, te_isError = None\<rparr>"

definition no_span_end :: SpanEndOptions where
  "no_span_end = \<lparr>se_outputState = None, se_error = None, se_isError = None\<rparr>"

definition no_generation_end :: GenerationEndOptions where
  "no_generation_end =
     \<lparr>ge_output = None, ge_inputTokens = None, ge_outputTokens = None, ge_latency = None,
      ge_httpStatus = None, ge_error = None, ge_isError = None\<rparr>"

definition no_embedding_end :: EmbeddingEndOptions where
  "no_embedding_end =
     \<lparr>ee_inputTokens = None, ee_latency = None, ee_httpStatus = None, ee_error = None,
      ee_isError = None\<rparr>"

text \<open>
  End options of a trace that also carry a latency, as a caller can hand them to
  \<^verbatim>\<open>Trace.end\<close> (an object with one more property): \<^verbatim>\<open>Trace.end\<close> reads no such property.
\<close>

record TraceEndOptions_latency = TraceEndOptions +
  te_latency :: "number option"

text \<open>The options of the trace of \<^verbatim>\<open>src/examples/basic.ts\<close>.\<close>

definition sample_trace_options :: TraceOptions where
  "sample_trace_options =
     \<lparr>to_id = None, to_name = ''example-operation'',
      to_inputState = Some [(''query'', JStr ''What is the weather like today?'')],
      to_outputState = None, to_privacy = None, to_userEmail = None,
      to_distinctId = Some ''user-123'', to_metadata = Some [(''source'', JStr ''example'')],
      to_properties = None, to_isError = None, to_error = None\<rparr>"


section \<open>The subject identifier of a trace and its units\<close>

text \<open>
  The trace, every span, generation and embedding hold the subject identifier \<open>d\<close>, and so
  does every message captured after the first \<open>n\<close>.
\<close>

definition carries :: "string \<Rightarrow> nat \<Rightarrow> world \<Rightarrow> bool" where
  "carries d n w =
     (t_distinctId (w_trace w) = d \<and>
      (\<forall>s \<in> set (w_spans w). s_distinctId s = d) \<and>
      (\<forall>g \<in> set (w_generations w). g_distinctId g = d) \<and>
      (\<forall>x \<in> set (w_embeddings w). e_distinctId x = d) \<and>
      n \<le> length (captured (w_llm w)) \<and>
      (\<forall>m \<in> set (drop n (captured (w_llm w))). c_distinctId m = d))"

section \<open>The client and the captured events\<close>

lemma getClient_captured: "captured (snd (getClient e st)) = captured st"
  by (simp add: getClient_def init_def Let_def)

lemma getClient_capture:
  "fst (getClient e st) \<noteq> None \<Longrightarrow> fst (getClient e (capture m (snd (getClient e st)))) \<noteq> None"
  by (auto simp add: getClient_def init_def Let_def capture_def)

lemma getClient_sample: "fst (getClient sample_env PostHogLLM_initial) \<noteq> None"
  by (simp add: getClient_def init_def Let_def sample_env_def PostHogLLM_initial_def)

lemma captured_initial: "captured PostHogLLM_initial = []"
  by (simp add: PostHogLLM_initial_def)

lemma captured_capture: "captured (capture m st) = captured st @ [m]"
  by (simp add: capture_def)

lemma Trace_end_fst: "fst (Trace_end e now t opts st) = Trace_end_apply t opts"
  by (simp add: Trace_end_def Let_def split: prod.splits option.splits)

lemma Trace_end_snd:
  "fst (getClient e st) \<noteq> None \<Longrightarrow>
   snd (Trace_end e now t opts st) =
     capture \<lparr>c_distinctId = t_distinctId (Trace_end_apply t opts), c_event = ''$ai_trace'',
       c_properties = Trace_properties e (Trace_end_apply t opts) (elapsed (t_startTime t) now)\<rparr>
       (snd (getClient e st))"
  by (auto simp add: Trace_end_def Let_def split: prod.splits option.splits)

lemma Span_end_fst: "fst (Span_end e now s opts st) = Span_end_apply s opts"
  by (simp add: Span_end_def Let_def split: prod.splits option.splits)

lemma Span_end_snd:
  "fst (getClient e st) \<noteq> None \<Longrightarrow>
   snd (Span_end e now s opts st) =
     capture \<lparr>c_distinctId = s_distinctId (Span_end_apply s opts), c_event = ''$ai_span'',
       c_properties = Span_properties e (Span_end_apply s opts) (elapsed (s_startTime s) now)\<rparr>
       (snd (getClient e st))"
  by (auto simp add: Span_end_def Let_def split: prod.splits option.splits)

lemma Generation_end_fst: "fst (Generation_end e now g opts st) = Generation_end_apply now g opts"
  by (simp add: Generation_end_def Let_def split: prod.splits option.splits)

lemma Generation_end_snd:
  "fst (getClient e st) \<noteq> None \<Longrightarrow>
   snd (Generation_end e now g opts st) =
     capture \<lparr>c_distinctId = g_distinctId (Generation_end_apply now g opts),
       c_event = ''$ai_generation'',
       c_properties = Generation_properties e (Generation_end_apply now g opts)\<rparr>
       (snd (getClient e st))"
  by (auto simp add: Generation_end_def Let_def split: prod.splits option.splits)

lemma Embedding_end_fst: "fst (Embedding_end e now x opts st) = Embedding_end_apply now x opts"
  by (simp add: Embedding_end_def Let_def split: prod.splits option.splits)

lemma Embedding_end_snd:
  "fst (getClient e st) \<noteq> None \<Longrightarrow>
   snd (Embedding_end e now x opts st) =
     capture \<lparr>c_distinctId = e_distinctId (Embedding_end_apply now x opts),
       c_event = ''$ai_embedding'',
       c_properties = Embedding_properties e (Embedding_end_apply now x opts)\<rparr>
       (snd (getClient e st))"
  by (auto simp add: Embedding_end_def Let_def split: prod.splits option.splits)

lemma Trace_end_captured:
  "fst (getClient e st) \<noteq> None \<Longrightarrow>
   captured (snd (Trace_end e now t opts st)) =
     captured st @
       [\<lparr>c_distinctId = t_distinctId (Trace_end_apply t opts), c_event = ''$ai_trace'',
         c_properties = Trace_properties e (Trace_end_apply t opts) (elapsed (t_startTime t) now)\<rparr>]"
  by (simp add: Trace_end_snd captured_capture getClient_captured)

lemma Span_end_captured:
  "fst (getClient e st) \<noteq> None \<Longrightarrow>
   captured (snd (Span_end e now s opts st)) =
     captured st @
       [\<lparr>c_distinctId = s_distinctId (Span_end_apply s opts), c_event = ''$ai_span'',
         c_properties = Span_properties e (Span_end_apply s opts) (elapsed (s_startTime s) now)\<rparr>]"
  by (simp add: Span_end_snd captured_capture getClient_captured)

lemma Generation_end_captured:
  "fst (getClient e st) \<noteq> None \<Longrightarrow>
   captured (snd (Generation_end e now g opts st)) =
     captured st @
       [\<lparr>c_distinctId = g_distinctId (Generation_end_apply now g opts),
         c_event = ''$ai_generation'',
         c_properties = Generation_properties e (Generation_end_apply now g opts)\<rparr>]"
  by (simp add: Generation_end_snd captured_capture getClient_captured)

lemma Embedding_end_captured:
  "fst (getClient e st) \<noteq> None \<Longrightarrow>
   captured (snd (Embedding_end e now x opts st)) =
     captured st @
       [\<lparr>c_distinctId = e_distinctId (Embedding_end_apply now x opts),
         c_event = ''$ai_embedding'',
         c_properties = Embedding_properties e (Embedding_end_apply now x opts)\<rparr>]"
  by (simp add: Embedding_end_snd captured_capture getClient_captured)

lemmas end_captured =
  Trace_end_captured Span_end_captured Generation_end_captured Embedding_end_captured

lemma Trace_end_apply_properties: "t_properties (Trace_end_apply t opts) = t_properties t"
  by (simp add: Trace_end_apply_def Let_def split: option.splits)

lemma Span_end_apply_properties: "s_properties (Span_end_apply s opts) = s_properties s"
  by (simp add: Span_end_apply_def Let_def split: option.splits)

lemma Generation_end_apply_properties:
  "g_properties (Generation_end_apply now g opts) = g_properties g"
  by (simp add: Generation_end_apply_def Let_def split: option.splits)

lemma Embedding_end_apply_properties:
  "e_properties (Embedding_end_apply now x opts) = e_properties x"
  by (simp add: Embedding_end_apply_def Let_def split: option.splits)

lemmas end_apply_properties =
  Trace_end_apply_properties Span_end_apply_properties Generation_end_apply_properties
  Embedding_end_apply_properties

lemmas end_fst = Trace_end_fst Span_end_fst Generation_end_fst Embedding_end_fst

lemmas end_snd = Trace_end_snd Span_end_snd Generation_end_snd Embedding_end_snd

lemmas end_apply_defs =
  Trace_end_apply_def Span_end_apply_def Generation_end_apply_def Embedding_end_apply_def

lemmas sample_defs =
  sample_env_def sample_trace_def sample_span_def sample_generation_def sample_embedding_def
  sample_span_options_def sample_generation_options_def sample_embedding_options_def
  no_trace_end_def no_span_end_def no_generation_end_def no_embedding_end_def

lemma Trace_end_client:
  "fst (getClient e st) \<noteq> None \<Longrightarrow> fst (getClient e (snd (Trace_end e now t opts st))) \<noteq> None"
  by (simp add: Trace_end_snd getClient_capture)

lemma Span_end_client:
  "fst (getClient e st) \<noteq> None \<Longrightarrow> fst (getClient e (snd (Span_end e now s opts st))) \<noteq> None"
  by (simp add: Span_end_snd getClient_capture)

lemma Generation_end_client:
  "fst (getClient e st) \<noteq> None \<Longrightarrow>
   fst (getClient e (snd (Generation_end e now g opts st))) \<noteq> None"
  by (simp add: Generation_end_snd getClient_capture)

lemma Embedding_end_client:
  "fst (getClient e st) \<noteq> None \<Longrightarrow>
   fst (getClient e (snd (Embedding_end e now x opts st))) \<noteq> None"
  by (simp add: Embedding_end_snd getClient_capture)

lemmas end_client = Trace_end_client Span_end_client Generation_end_client Embedding_end_client

subsection \<open>The error field of the four property maps\<close>

lemma Trace_properties_error:
  "Trace_properties e t lat ''$ai_error'' =
     (if t_isError t \<and> truthy_error (t_error t)
      then Some (PString (error_string e (the (t_error t))))
      else custom (t_properties t) ''$ai_error'')"
  by (simp add: Trace_properties_def Let_def map_add_def custom_def split: option.splits)

lemma Span_properties_error:
  "Span_properties e s lat ''$ai_error'' =
     (if s_isError s \<and> truthy_error (s_error s)
      then Some (PString (error_string e (the (s_error s))))
      else custom (s_properties s) ''$ai_error'')"
  by (simp add: Span_properties_def Let_def map_add_def custom_def split: option.splits)

lemma Generation_properties_error:
  "Generation_properties e g ''$ai_error'' =
     (if g_isError g \<and> truthy_error (g_error g)
      then Some (PString (error_string e (the (g_error g))))
      else custom (g_properties g) ''$ai_error'')"
  by (simp add: Generation_properties_def Let_def map_add_def custom_def split: option.splits)

lemma Embedding_properties_error:
  "Embedding_properties e x ''$ai_error'' =
     (if e_isError x \<and> truthy_error (e_error x)
      then Some (PString (error_string e (the (e_error x))))
      else custom (e_properties x) ''$ai_error'')"
  by (simp add: Embedding_properties_def Let_def map_add_def custom_def split: option.splits)

lemma error_cases:
  "(if b \<and> truthy_error err then Some (PString (error_string e (the err))) else c) =
     (case (if b then err else None) of
        None \<Rightarrow> c
      | Some (ErrorObject obj) \<Rightarrow> Some (PString (JSON_stringify e (JObj obj)))
      | Some (ErrorString s) \<Rightarrow> (if s \<noteq> [] then Some (PString s) else c))"
  by (simp add: truthy_error_def error_string_def split: option.splits error_value.splits)

subsection \<open>Entries of the four property maps\<close>

text \<open>
  A key that the code does not assign after the object literal is looked up in the literal
  with the custom properties spread over it.
\<close>

lemma Trace_properties_literal:
  assumes "k \<noteq> ''$ai_input_state''" "k \<noteq> ''$ai_output_state''" "k \<noteq> ''$ai_metadata''"
    "k \<noteq> ''$ai_error''"
  shows "Trace_properties e t lat k =
     ([''$ai_trace_id'' \<mapsto> PString (t_id t),
       ''$ai_span_id'' \<mapsto> PString (t_id t),
       ''$ai_span_name'' \<mapsto> PString (t_name t),
       ''$ai_latency'' \<mapsto> PNumber lat,
       ''$ai_is_error'' \<mapsto> PBoolean (t_isError t)] ++ custom (t_properties t)) k"
  using assms by (simp add: Trace_properties_def Let_def split: option.splits)

lemma Span_properties_literal:
  assumes "k \<noteq> ''$ai_input_state''" "k \<noteq> ''$ai_output_state''" "k \<noteq> ''$ai_metadata''"
    "k \<noteq> ''$ai_error''"
  shows "Span_properties e s lat k =
     ([''$ai_trace_id'' \<mapsto> PString (s_traceId s),
       ''$ai_span_id'' \<mapsto> PString (s_id s),
       ''$ai_span_name'' \<mapsto> PString (s_name s),
       ''$ai_parent_id'' \<mapsto> PString (or_else (s_parentId s) (s_traceId s)),
       ''$ai_latency'' \<mapsto> PNumber lat,
       ''$ai_is_error'' \<mapsto> PBoolean (s_isError s)] ++ custom (s_properties s)) k"
  using assms by (simp add: Span_properties_def Let_def split: option.splits)

lemma Generation_properties_literal:
  assumes "k \<noteq> ''$ai_output_choices''" "k \<noteq> ''$ai_input_tokens''" "k \<noteq> ''$ai_output_tokens''"
    "k \<noteq> ''$ai_http_status''" "k \<noteq> ''$ai_base_url''" "k \<noteq> ''$ai_metadata''"
    "k \<noteq> ''$ai_error''"
  shows "Generation_properties e g k =
     ([''$ai_trace_id'' \<mapsto> PString (g_traceId g),
       ''$ai_model'' \<mapsto> PString (g_model g),
       ''$ai_provider'' \<mapsto> PString (g_provider g),
       ''$ai_input'' \<mapsto> PString (JSON_stringify e (g_input g)),
       ''$ai_latency'' \<mapsto> (case g_latency g of None \<Rightarrow> PUndefined | Some l \<Rightarrow> PNumber l),
       ''$ai_is_error'' \<mapsto> PBoolean (g_isError g)] ++ custom (g_properties g)) k"
  using assms by (simp add: Generation_properties_def Let_def split: option.splits)

lemma Embedding_properties_literal:
  assumes "k \<noteq> ''$ai_input_tokens''" "k \<noteq> ''$ai_http_status''" "k \<noteq> ''$ai_base_url''"
    "k \<noteq> ''$ai_metadata''" "k \<noteq> ''$ai_error''"
  shows "Embedding_properties e x k =
     ([''$ai_trace_id'' \<mapsto> PString (e_traceId x),
       ''$ai_model'' \<mapsto> PString (e_model x),
       ''$ai_provider'' \<mapsto> PString (e_provider x),
       ''$ai_input'' \<mapsto> PString
          (case e_input x of Text s \<Rightarrow> s | Texts xs \<Rightarrow> JSON_stringify e (JArr (map JStr xs))),
       ''$ai_latency'' \<mapsto> (case e_latency x of None \<Rightarrow> PUndefined | Some l \<Rightarrow> PNumber l),
       ''$ai_is_error'' \<mapsto> PBoolean (e_isError x)] ++ custom (e_properties x)) k"
  using assms by (simp add: Embedding_properties_def Let_def split: option.splits)

lemma Trace_properties_input_state:
  "Trace_properties e t lat ''$ai_input_state'' =
     (case (if t_privacy t then None else t_inputState t) of
        None \<Rightarrow> custom (t_properties t) ''$ai_input_state''
      | Some x \<Rightarrow> Some (PString (JSON_stringify e (JObj x))))"
  by (simp add: Trace_properties_def Let_def map_add_def custom_def split: option.splits)

lemma Trace_properties_output_state:
  "Trace_properties e t lat ''$ai_output_state'' =
     (case (if t_privacy t then None else t_outputState t) of
        None \<Rightarrow> custom (t_properties t) ''$ai_output_state''
      | Some x \<Rightarrow> Some (PString (JSON_stringify e (JObj x))))"
  by (simp add: Trace_properties_def Let_def map_add_def custom_def split: option.splits)

lemma Span_properties_input_state:
  "Span_properties e s lat ''$ai_input_state'' =
     (case s_inputState s of
        None \<Rightarrow> custom (s_properties s) ''$ai_input_state''
      | Some x \<Rightarrow> Some (PString (JSON_stringify e (JObj x))))"
  by (simp add: Span_properties_def Let_def map_add_def custom_def split: option.splits)

lemma Span_properties_output_state:
  "Span_properties e s lat ''$ai_output_state'' =
     (case s_outputState s of
        None \<Rightarrow> custom (s_properties s) ''$ai_output_state''
      | Some x \<Rightarrow> Some (PString (JSON_stringify e (JObj x))))"
  by (simp add: Span_properties_def Let_def map_add_def custom_def split: option.splits)

lemma Generation_properties_output_choices:
  "Generation_properties e g ''$ai_output_choices'' =
     (if truthy_any (g_output g)
      then Some (PString (output_choices e (the (g_output g))))
      else custom (g_properties g) ''$ai_output_choices'')"
  by (simp add: Generation_properties_def Let_def map_add_def custom_def split: option.splits)

lemma Generation_properties_input:
  "Generation_properties e g ''$ai_input'' =
     Some (case spread (g_properties g) ''$ai_input'' of
             None \<Rightarrow> PString (JSON_stringify e (g_input g))
           | Some v \<Rightarrow> PString v)"
  by (simp add: Generation_properties_literal map_add_def custom_def split: option.splits)

lemma Embedding_properties_input:
  "Embedding_properties e x ''$ai_input'' =
     Some (case spread (e_properties x) ''$ai_input'' of
             None \<Rightarrow> PString
               (case e_input x of Text s \<Rightarrow> s | Texts xs \<Rightarrow> JSON_stringify e (JArr (map JStr xs)))
           | Some v \<Rightarrow> PString v)"
  by (simp add: Embedding_properties_literal map_add_def custom_def split: option.splits)

lemma Trace_end_apply_unchanged:
  "t_privacy (Trace_end_apply t opts) = t_privacy t"
  "t_inputState (Trace_end_apply t opts) = t_inputState t"
  "t_id (Trace_end_apply t opts) = t_id t"
  "t_distinctId (Trace_end_apply t opts) = t_distinctId t"
  "t_startTime (Trace_end_apply t opts) = t_startTime t"
  by (simp_all add: Trace_end_apply_def Let_def split: option.splits)

lemma Span_end_apply_unchanged:
  "s_inputState (Span_end_apply s opts) = s_inputState s"
  "s_id (Span_end_apply s opts) = s_id s"
  "s_traceId (Span_end_apply s opts) = s_traceId s"
  "s_parentId (Span_end_apply s opts) = s_parentId s"
  "s_distinctId (Span_end_apply s opts) = s_distinctId s"
  "s_startTime (Span_end_apply s opts) = s_startTime s"
  by (simp_all add: Span_end_apply_def Let_def split: option.splits)

lemma Generation_end_apply_unchanged:
  "g_input (Generation_end_apply now g opts) = g_input g"
  "g_traceId (Generation_end_apply now g opts) = g_traceId g"
  "g_distinctId (Generation_end_apply now g opts) = g_distinctId g"
  "g_startTime (Generation_end_apply now g opts) = g_startTime g"
  by (simp_all add: Generation_end_apply_def Let_def split: option.splits)

lemma Embedding_end_apply_unchanged:
  "e_input (Embedding_end_apply now x opts) = e_input x"
  "e_traceId (Embedding_end_apply now x opts) = e_traceId x"
  "e_distinctId (Embedding_end_apply now x opts) = e_distinctId x"
  "e_startTime (Embedding_end_apply now x opts) = e_startTime x"
  by (simp_all add: Embedding_end_apply_def Let_def split: option.splits)

lemmas end_apply_unchanged =
  Trace_end_apply_unchanged Span_end_apply_unchanged Generation_end_apply_unchanged
  Embedding_end_apply_unchanged

section \<open>Units under a sequence of calls\<close>

lemma Trace_update_distinctId: "t_distinctId (Trace_update t opts) = t_distinctId t"
  by (simp add: Trace_update_def Let_def split: option.splits)

lemma Span_update_unchanged:
  "s_id (Span_update s opts) = s_id s"
  "s_traceId (Span_update s opts) = s_traceId s"
  "s_parentId (Span_update s opts) = s_parentId s"
  "s_properties (Span_update s opts) = s_properties s"
  "s_distinctId (Span_update s opts) = s_distinctId s"
  "s_startTime (Span_update s opts) = s_startTime s"
  by (simp_all add: Span_update_def Let_def split: option.splits)

lemma Generation_update_unchanged:
  "g_properties (Generation_update g opts) = g_properties g"
  "g_distinctId (Generation_update g opts) = g_distinctId g"
  by (simp_all add: Generation_update_def Let_def split: option.splits)

lemma foldl_Span_update_unchanged:
  "s_id (foldl Span_update s us) = s_id s"
  "s_traceId (foldl Span_update s us) = s_traceId s"
  "s_parentId (foldl Span_update s us) = s_parentId s"
  "s_properties (foldl Span_update s us) = s_properties s"
  "s_distinctId (foldl Span_update s us) = s_distinctId s"
  "s_startTime (foldl Span_update s us) = s_startTime s"
  by (induction us arbitrary: s) (simp_all add: Span_update_unchanged)

lemma Span_new_fields:
  assumes "Span_new now uuid tid pid opts = Inr s"
  shows "s_traceId s = tid" "s_parentId s = pid" "s_properties s = so_properties opts"
    "so_distinctId opts = Some (s_distinctId s)" "s_id s = or_else (so_id opts) uuid"
  using assms by (auto simp add: Span_new_def truthy_string_def split: if_splits option.splits)

lemma Generation_new_fields:
  assumes "Generation_new now tid opts = Inr g"
  shows "g_traceId g = tid" "g_properties g = go_properties opts"
    "go_distinctId opts = Some (g_distinctId g)"
  using assms
  by (auto simp add: Generation_new_def truthy_string_def split: if_splits option.splits)

lemma Embedding_new_fields:
  assumes "Embedding_new now tid opts = Inr x"
  shows "e_traceId x = tid" "e_properties x = eo_properties opts"
    "eo_distinctId opts = Some (e_distinctId x)"
  using assms
  by (auto simp add: Embedding_new_def truthy_string_def split: if_splits option.splits)

lemma Trace_span_fields:
  assumes "Trace_span now uuid t opts = Inr s"
  shows "s_traceId s = t_id t" "s_parentId s = None"
    "s_properties s = Some (spread2 (t_properties t) (so_properties opts))"
    "s_distinctId s = t_distinctId t"
  using Span_new_fields [OF assms [unfolded Trace_span_def]] by simp_all

lemma Span_span_fields:
  assumes "Span_span now uuid p opts = Inr s"
  shows "s_traceId s = s_traceId p" "s_parentId s = Some (s_id p)"
    "s_properties s = Some (spread2 (s_properties p) (so_properties opts))"
    "s_distinctId s = s_distinctId p"
  using Span_new_fields [OF assms [unfolded Span_span_def]] by simp_all

lemma Trace_generation_fields:
  assumes "Trace_generation now t opts = Inr g"
  shows "g_traceId g = t_id t"
    "g_properties g = Some (spread2 (t_properties t) (go_properties opts))"
    "g_distinctId g = t_distinctId t"
  using Generation_new_fields [OF assms [unfolded Trace_generation_def]] by simp_all

lemma Trace_embedding_fields:
  assumes "Trace_embedding now t opts = Inr x"
  shows "e_traceId x = t_id t"
    "e_properties x = Some (spread2 (t_properties t) (eo_properties opts))"
    "e_distinctId x = t_distinctId t"
  using Embedding_new_fields [OF assms [unfolded Trace_embedding_def]] by simp_all


subsection \<open>A call leaves the properties of the units that exist\<close>







subsection \<open>A call keeps the subject identifier\<close>

lemma Trace_end_captured_any:
  "captured (snd (Trace_end e now t opts st)) =
     captured st @
       (case fst (getClient e st) of
          None \<Rightarrow> []
        | Some c \<Rightarrow>
            [\<lparr>c_distinctId = t_distinctId t, c_event = ''$ai_trace'',
              c_properties = Trace_properties e (Trace_end_apply t opts) (elapsed (t_startTime t) now)\<rparr>])"
  by (simp add: Trace_end_def Let_def case_prod_beta getClient_captured captured_capture
      Trace_end_apply_unchanged split: option.splits)

lemma Span_end_captured_any:
  "captured (snd (Span_end e now s opts st)) =
     captured st @
       (case fst (getClient e st) of
          None \<Rightarrow> []
        | Some c \<Rightarrow>
            [\<lparr>c_distinctId = s_distinctId s, c_event = ''$ai_span'',
              c_properties = Span_properties e (Span_end_apply s opts) (elapsed (s_startTime s) now)\<rparr>])"
  by (simp add: Span_end_def Let_def case_prod_beta getClient_captured captured_capture
      Span_end_apply_unchanged split: option.splits)

lemma Generation_end_captured_any:
  "captured (snd (Generation_end e now g opts st)) =
     captured st @
       (case fst (getClient e st) of
          None \<Rightarrow> []
        | Some c \<Rightarrow>
            [\<lparr>c_distinctId = g_distinctId g, c_event = ''$ai_generation'',
              c_properties = Generation_properties e (Generation_end_apply now g opts)\<rparr>])"
  by (simp add: Generation_end_def Let_def case_prod_beta getClient_captured captured_capture
      Generation_end_apply_unchanged split: option.splits)

lemma Embedding_end_captured_any:
  "captured (snd (Embedding_end e now x opts st)) =
     captured st @
       (case fst (getClient e st) of
          None \<Rightarrow> []
        | Some c \<Rightarrow>
            [\<lparr>c_distinctId = e_distinctId x, c_event = ''$ai_embedding'',
              c_properties = Embedding_properties e (Embedding_end_apply now x opts)\<rparr>])"
  by (simp add: Embedding_end_def Let_def case_prod_beta getClient_captured captured_capture
      Embedding_end_apply_unchanged split: option.splits)

lemma set_update_all:
  assumes "\<forall>y \<in> set xs. P y" "P z"
  shows "\<forall>y \<in> set (xs[i := z]). P y"
  using assms set_update_subset_insert [of xs i z] by auto

lemma carries_spans:
  assumes "carries d n w" "i < length (w_spans w)" "s_distinctId z = s_distinctId (w_spans w ! i)"
  shows "\<forall>s \<in> set ((w_spans w)[i := z]). s_distinctId s = d"
proof -
  from assms(1) have all: "\<forall>s \<in> set (w_spans w). s_distinctId s = d"
    by (simp add: carries_def)
  with assms(2) have "s_distinctId (w_spans w ! i) = d" by simp
  with assms(3) all show ?thesis by (intro set_update_all) simp_all
qed

lemma carries_generations:
  assumes "carries d n w" "i < length (w_generations w)"
    "g_distinctId z = g_distinctId (w_generations w ! i)"
  shows "\<forall>g \<in> set ((w_generations w)[i := z]). g_distinctId g = d"
proof -
  from assms(1) have all: "\<forall>g \<in> set (w_generations w). g_distinctId g = d"
    by (simp add: carries_def)
  with assms(2) have "g_distinctId (w_generations w ! i) = d" by simp
  with assms(3) all show ?thesis by (intro set_update_all) simp_all
qed

lemma carries_embeddings:
  assumes "carries d n w" "i < length (w_embeddings w)"
    "e_distinctId z = e_distinctId (w_embeddings w ! i)"
  shows "\<forall>x \<in> set ((w_embeddings w)[i := z]). e_distinctId x = d"
proof -
  from assms(1) have all: "\<forall>x \<in> set (w_embeddings w). e_distinctId x = d"
    by (simp add: carries_def)
  with assms(2) have "e_distinctId (w_embeddings w ! i) = d" by simp
  with assms(3) all show ?thesis by (intro set_update_all) simp_all
qed

lemma carries_captured:
  assumes "carries d n w" "captured st = captured (w_llm w) @ ms" "\<forall>m \<in> set ms. c_distinctId m = d"
  shows "n \<le> length (captured st) \<and> (\<forall>m \<in> set (drop n (captured st)). c_distinctId m = d)"
  using assms by (auto simp add: carries_def)

lemma step_carries:
  assumes "carries d n w"
  shows "carries d n (step e now uuid c w)"
proof (cases c)
  case (Call_Trace_update opts)
  with assms show ?thesis
    by (simp add: carries_def Trace_update_distinctId)
next
  case (Call_Trace_end opts)
  from assms have d: "t_distinctId (w_trace w) = d" by (simp add: carries_def)
  have "n \<le> length (captured (snd (Trace_end e now (w_trace w) opts (w_llm w)))) \<and>
      (\<forall>m \<in> set (drop n (captured (snd (Trace_end e now (w_trace w) opts (w_llm w))))).
         c_distinctId m = d)"
    by (rule carries_captured [OF assms Trace_end_captured_any]) (simp add: d split: option.splits)
  with assms Call_Trace_end show ?thesis
    by (simp add: carries_def Let_def case_prod_beta Trace_end_fst Trace_end_apply_unchanged)
next
  case (Call_Trace_span opts)
  with assms show ?thesis
    by (cases "Trace_span now uuid (w_trace w) opts")
      (simp_all add: carries_def Trace_span_fields)
next
  case (Call_Trace_generation opts)
  with assms show ?thesis
    by (cases "Trace_generation now (w_trace w) opts")
      (simp_all add: carries_def Trace_generation_fields)
next
  case (Call_Trace_embedding opts)
  with assms show ?thesis
    by (cases "Trace_embedding now (w_trace w) opts")
      (simp_all add: carries_def Trace_embedding_fields)
next
  case (Call_Span_update i opts)
  show ?thesis
  proof (cases "i < length (w_spans w)")
    case True
    from carries_spans [OF assms True, of "Span_update (w_spans w ! i) opts"]
    have "\<forall>s \<in> set ((w_spans w)[i := Span_update (w_spans w ! i) opts]). s_distinctId s = d"
      by (simp add: Span_update_unchanged)
    with assms True Call_Span_update show ?thesis by (simp add: carries_def)
  next
    case False
    with assms Call_Span_update show ?thesis by simp
  qed
next
  case (Call_Span_end i opts)
  show ?thesis
  proof (cases "i < length (w_spans w)")
    case True
    from assms True have d: "s_distinctId (w_spans w ! i) = d" by (simp add: carries_def)
    from carries_spans [OF assms True, of "Span_end_apply (w_spans w ! i) opts"]
    have 1: "\<forall>s \<in> set ((w_spans w)[i := Span_end_apply (w_spans w ! i) opts]). s_distinctId s = d"
      by (simp add: Span_end_apply_unchanged)
    have 2: "n \<le> length (captured (snd (Span_end e now (w_spans w ! i) opts (w_llm w)))) \<and>
      (\<forall>m \<in> set (drop n (captured (snd (Span_end e now (w_spans w ! i) opts (w_llm w))))).
         c_distinctId m = d)"
      by (rule carries_captured [OF assms Span_end_captured_any]) (simp add: d split: option.splits)
    from assms True Call_Span_end 1 2 show ?thesis
      by (simp add: carries_def Let_def case_prod_beta Span_end_fst)
  next
    case False
    with assms Call_Span_end show ?thesis by simp
  qed
next
  case (Call_Span_span i opts)
  show ?thesis
  proof (cases "i < length (w_spans w)")
    case True
    from assms True have d: "s_distinctId (w_spans w ! i) = d" by (simp add: carries_def)
    from assms True Call_Span_span d show ?thesis
      by (cases "Span_span now uuid (w_spans w ! i) opts")
        (simp_all add: carries_def Span_span_fields)
  next
    case False
    with assms Call_Span_span show ?thesis by simp
  qed
next
  case (Call_Generation_update i opts)
  show ?thesis
  proof (cases "i < length (w_generations w)")
    case True
    from carries_generations [OF assms True, of "Generation_update (w_generations w ! i) opts"]
    have "\<forall>g \<in> set ((w_generations w)[i := Generation_update (w_generations w ! i) opts]).
        g_distinctId g = d"
      by (simp add: Generation_update_unchanged)
    with assms True Call_Generation_update show ?thesis by (simp add: carries_def)
  next
    case False
    with assms Call_Generation_update show ?thesis by simp
  qed
next
  case (Call_Generation_end i opts)
  show ?thesis
  proof (cases "i < length (w_generations w)")
    case True
    from assms True have d: "g_distinctId (w_generations w ! i) = d" by (simp add: carries_def)
    from carries_generations [OF assms True, of "Generation_end_apply now (w_generations w ! i) opts"]
    have 1: "\<forall>g \<in> set ((w_generations w)[i := Generation_end_apply now (w_generations w ! i) opts]).
        g_distinctId g = d"
      by (simp add: Generation_end_apply_unchanged)
    have 2: "n \<le> length (captured (snd (Generation_end e now (w_generations w ! i) opts (w_llm w)))) \<and>
      (\<forall>m \<in> set (drop n (captured (snd (Generation_end e now (w_generations w ! i) opts (w_llm w))))).
         c_distinctId m = d)"
      by (rule carries_captured [OF assms Generation_end_captured_any])
        (simp add: d split: option.splits)
    from assms True Call_Generation_end 1 2 show ?thesis
      by (simp add: carries_def Let_def case_prod_beta Generation_end_fst)
  next
    case False
    with assms Call_Generation_end show ?thesis by simp
  qed
next
  case (Call_Embedding_end i opts)
  show ?thesis
  proof (cases "i < length (w_embeddings w)")
    case True
    from assms True have d: "e_distinctId (w_embeddings w ! i) = d" by (simp add: carries_def)
    from carries_embeddings [OF assms True, of "Embedding_end_apply now (w_embeddings w ! i) opts"]
    have 1: "\<forall>x \<in> set ((w_embeddings w)[i := Embedding_end_apply now (w_embeddings w ! i) opts]).
        e_distinctId x = d"
      by (simp add: Embedding_end_apply_unchanged)
    have 2: "n \<le> length (captured (snd (Embedding_end e now (w_embeddings w ! i) opts (w_llm w)))) \<and>
      (\<forall>m \<in> set (drop n (captured (snd (Embedding_end e now (w_embeddings w ! i) opts (w_llm w))))).
         c_distinctId m = d)"
      by (rule carries_captured [OF assms Embedding_end_captured_any])
        (simp add: d split: option.splits)
    from assms True Call_Embedding_end 1 2 show ?thesis
      by (simp add: carries_def Let_def case_prod_beta Embedding_end_fst)
  next
    case False
    with assms Call_Embedding_end show ?thesis by simp
  qed
qed

lemma run_carries: "carries d n w \<Longrightarrow> carries d n (run e cs w)"
proof (induction cs arbitrary: w)
  case Nil
  then show ?case by simp
next
  case (Cons a cs)
  obtain now uuid c where a: "a = (now, uuid, c)" by (cases a)
  from Cons.IH [OF step_carries [OF Cons.prems, of e now uuid c]]
  show ?case by (simp add: a)
qed

lemma start_carries: "carries (t_distinctId t) (length (captured st)) (start st t)"
  by (simp add: carries_def start_def)

section \<open>C1: the properties a child inherits\<close>




section \<open>C2: privacy and the payload fields\<close>

text \<open>
  C2, as the code has it. With a client at hand, a trace closed with the privacy flag true
  gets no input-state and no output-state field from its states: under those two keys the
  event holds only what the custom properties hold there. Closed with the flag false, a
  present input or output state is emitted as its \<^verbatim>\<open>JSON.stringify\<close> string. A span emits
  its present input and output state in any case (no privacy flag reaches it). A generation
  emits its serialized input unless a custom property \<^verbatim>\<open>$ai_input\<close> replaces it, and its
  output choices when the output is truthy; an embedding emits its input unless a custom
  property \<^verbatim>\<open>$ai_input\<close> replaces it.
\<close>

theorem payload_fields:
  assumes "fst (getClient e st) \<noteq> None"
  shows
    "(\<exists>ev. captured (snd (Trace_end e now t topts st)) = captured st @ [ev] \<and>
        c_properties ev ''$ai_input_state'' =
          (case (if t_privacy t then None else t_inputState t) of
             None \<Rightarrow> custom (t_properties t) ''$ai_input_state''
           | Some v \<Rightarrow> Some (PString (JSON_stringify e (JObj v)))) \<and>
        c_properties ev ''$ai_output_state'' =
          (case (if t_privacy t then None
                 else t_outputState (fst (Trace_end e now t topts st))) of
             None \<Rightarrow> custom (t_properties t) ''$ai_output_state''
           | Some v \<Rightarrow> Some (PString (JSON_stringify e (JObj v))))) \<and>
     (\<exists>ev. captured (snd (Span_end e now s sopts st)) = captured st @ [ev] \<and>
        c_properties ev ''$ai_input_state'' =
          (case s_inputState s of
             None \<Rightarrow> custom (s_properties s) ''$ai_input_state''
           | Some v \<Rightarrow> Some (PString (JSON_stringify e (JObj v)))) \<and>
        c_properties ev ''$ai_output_state'' =
          (case s_outputState (fst (Span_end e now s sopts st)) of
             None \<Rightarrow> custom (s_properties s) ''$ai_output_state''
           | Some v \<Rightarrow> Some (PString (JSON_stringify e (JObj v))))) \<and>
     (\<exists>ev. captured (snd (Generation_end e now g gopts st)) = captured st @ [ev] \<and>
        c_properties ev ''$ai_input'' =
          Some (case spread (g_properties g) ''$ai_input'' of
                  None \<Rightarrow> PString (JSON_stringify e (g_input g))
                | Some v \<Rightarrow> PString v) \<and>
        c_properties ev ''$ai_output_choices'' =
          (case g_output (fst (Generation_end e now g gopts st)) of
             None \<Rightarrow> custom (g_properties g) ''$ai_output_choices''
           | Some v \<Rightarrow>
               (if truthy v then Some (PString (output_choices e v))
                else custom (g_properties g) ''$ai_output_choices''))) \<and>
     (\<exists>ev. captured (snd (Embedding_end e now x xopts st)) = captured st @ [ev] \<and>
        c_properties ev ''$ai_input'' =
          Some (case spread (e_properties x) ''$ai_input'' of
                  None \<Rightarrow> PString
                    (case e_input x of
                       Text m \<Rightarrow> m
                     | Texts ms \<Rightarrow> JSON_stringify e (JArr (map JStr ms)))
                | Some v \<Rightarrow> PString v))"
proof -
  note facts = end_captured [OF assms] end_fst end_apply_properties end_apply_unchanged
  have 1: "\<exists>ev. captured (snd (Trace_end e now t topts st)) = captured st @ [ev] \<and>
        c_properties ev ''$ai_input_state'' =
          (case (if t_privacy t then None else t_inputState t) of
             None \<Rightarrow> custom (t_properties t) ''$ai_input_state''
           | Some v \<Rightarrow> Some (PString (JSON_stringify e (JObj v)))) \<and>
        c_properties ev ''$ai_output_state'' =
          (case (if t_privacy t then None
                 else t_outputState (fst (Trace_end e now t topts st))) of
             None \<Rightarrow> custom (t_properties t) ''$ai_output_state''
           | Some v \<Rightarrow> Some (PString (JSON_stringify e (JObj v))))"
    by (simp add: facts Trace_properties_input_state Trace_properties_output_state
        cong: option.case_cong)
  have 2: "\<exists>ev. captured (snd (Span_end e now s sopts st)) = captured st @ [ev] \<and>
        c_properties ev ''$ai_input_state'' =
          (case s_inputState s of
             None \<Rightarrow> custom (s_properties s) ''$ai_input_state''
           | Some v \<Rightarrow> Some (PString (JSON_stringify e (JObj v)))) \<and>
        c_properties ev ''$ai_output_state'' =
          (case s_outputState (fst (Span_end e now s sopts st)) of
             None \<Rightarrow> custom (s_properties s) ''$ai_output_state''
           | Some v \<Rightarrow> Some (PString (JSON_stringify e (JObj v))))"
    by (simp add: facts Span_properties_input_state Span_properties_output_state
        cong: option.case_cong)
  have 3: "\<exists>ev. captured (snd (Generation_end e now g gopts st)) = captured st @ [ev] \<and>
        c_properties ev ''$ai_input'' =
          Some (case spread (g_properties g) ''$ai_input'' of
                  None \<Rightarrow> PString (JSON_stringify e (g_input g))
                | Some v \<Rightarrow> PString v) \<and>
        c_properties ev ''$ai_output_choices'' =
          (case g_output (fst (Generation_end e now g gopts st)) of
             None \<Rightarrow> custom (g_properties g) ''$ai_output_choices''
           | Some v \<Rightarrow>
               (if truthy v then Some (PString (output_choices e v))
                else custom (g_properties g) ''$ai_output_choices''))"
    by (simp add: facts Generation_properties_input Generation_properties_output_choices
        truthy_any_def cong: option.case_cong split: option.splits)
  have 4: "\<exists>ev. captured (snd (Embedding_end e now x xopts st)) = captured st @ [ev] \<and>
        c_properties ev ''$ai_input'' =
          Some (case spread (e_properties x) ''$ai_input'' of
                  None \<Rightarrow> PString
                    (case e_input x of
                       Text m \<Rightarrow> m
                     | Texts ms \<Rightarrow> JSON_stringify e (JArr (map JStr ms)))
                | Some v \<Rightarrow> PString v)"
    by (simp add: facts Embedding_properties_input cong: option.case_cong)
  from 1 2 3 4 show ?thesis by blast
qed

theorem payload_fields_witness:
  "fst (getClient sample_env PostHogLLM_initial) \<noteq> None \<and>
   (\<exists>ev. captured (snd (Trace_end sample_env 2000 (sample_trace\<lparr>t_privacy := True\<rparr>)
            (Some no_trace_end) PostHogLLM_initial)) = [ev] \<and>
      c_properties ev ''$ai_input_state'' = None \<and>
      c_properties ev ''$ai_output_state'' = None) \<and>
   (\<exists>ev. captured (snd (Trace_end sample_env 2000 sample_trace
            (Some no_trace_end) PostHogLLM_initial)) = [ev] \<and>
      c_properties ev ''$ai_input_state'' =
        Some (PString (JSON_stringify sample_env
          (JObj [(''query'', JStr ''What is the weather like today?'')])))) \<and>
   (\<exists>ev. captured (snd (Span_end sample_env 2000 sample_span
            (Some (no_span_end\<lparr>se_outputState := Some [(''processedQuery'', JStr ''get_weather(today)'')]\<rparr>))
            PostHogLLM_initial)) = [ev] \<and>
      c_properties ev ''$ai_input_state'' =
        Some (PString (JSON_stringify sample_env
          (JObj [(''rawQuery'', JStr ''What is the weather like today?'')]))) \<and>
      c_properties ev ''$ai_output_state'' =
        Some (PString (JSON_stringify sample_env
          (JObj [(''processedQuery'', JStr ''get_weather(today)'')])))) \<and>
   (\<exists>ev. captured (snd (Generation_end sample_env 2000 sample_generation
            (Some (no_generation_end\<lparr>ge_output := Some (JStr ''It is sunny'')\<rparr>))
            PostHogLLM_initial)) = [ev] \<and>
      c_properties ev ''$ai_input'' =
        Some (PString (JSON_stringify sample_env (JObj [(''query'', JStr ''get_weather(today)'')]))) \<and>
      c_properties ev ''$ai_output_choices'' =
        Some (PString (JSON_stringify sample_env
          (JArr [JObj [(''role'', JStr ''assistant''), (''content'', JStr ''It is sunny'')]])))) \<and>
   (\<exists>ev. captured (snd (Embedding_end sample_env 2000 sample_embedding
            (Some no_embedding_end) PostHogLLM_initial)) = [ev] \<and>
      c_properties ev ''$ai_input'' = Some (PString ''What is the capital of France?''))"
  using
    payload_fields [OF getClient_sample, of 2000 "sample_trace\<lparr>t_privacy := True\<rparr>"
      "Some no_trace_end" sample_span
      "Some (no_span_end\<lparr>se_outputState := Some [(''processedQuery'', JStr ''get_weather(today)'')]\<rparr>)"
      sample_generation
      "Some (no_generation_end\<lparr>ge_output := Some (JStr ''It is sunny'')\<rparr>)"
      sample_embedding "Some no_embedding_end"]
    payload_fields [OF getClient_sample, of 2000 sample_trace
      "Some no_trace_end" sample_span "Some no_span_end" sample_generation
      "Some no_generation_end" sample_embedding "Some no_embedding_end"]
    getClient_sample
  by (auto simp add: end_fst end_apply_defs sample_defs captured_initial truthy_any_def
      truthy_error_def output_choices_def Let_def custom_def spread_def)

text \<open>
  C2 as written fails twice: a trace closed with the privacy flag true and a custom property
  \<^verbatim>\<open>$ai_input_state\<close> emits that field, and a generation whose output is \<^verbatim>\<open>""\<close> emits no
  output field.
\<close>

theorem payload_fields_counterexample:
  "c_properties (last (captured (snd (Trace_end sample_env 2000
      (sample_trace\<lparr>t_privacy := True, t_properties := Some [''$ai_input_state'' \<mapsto> ''kept'']\<rparr>)
      (Some no_trace_end) PostHogLLM_initial)))) ''$ai_input_state'' = Some (PString ''kept'') \<and>
   c_properties (last (captured (snd (Generation_end sample_env 2000
      (sample_generation\<lparr>g_output := Some (JStr [])\<rparr>)
      (Some no_generation_end) PostHogLLM_initial)))) ''$ai_output_choices'' = None"
  by (simp add: Trace_end_captured [OF getClient_sample]
      Generation_end_captured [OF getClient_sample]
      Trace_properties_input_state Generation_properties_output_choices
      Trace_end_apply_def Generation_end_apply_def Let_def
      sample_trace_def sample_generation_def no_trace_end_def no_generation_end_def
      captured_initial truthy_any_def truthy_error_def custom_def spread_def)

section \<open>C3: the subject identifier of the units of a trace\<close>

text \<open>
  C3. Let a trace be constructed by \<^verbatim>\<open>PostHogLLM.trace\<close>. Its subject identifier is the user
  email of its options if that is non-empty, else their distinct id. After any sequence of
  calls on the trace and on the units created from it (updates, closures, and creations of
  spans, generations and embeddings, whatever distinctId the options of a creation hold),
  the trace and every span, generation and embedding hold that subject identifier, and every
  event captured since the construction was captured under it.
\<close>

theorem subject_identifier_inherited:
  assumes "trace now0 uuid0 st opts = Inr t"
  shows
    "t_distinctId t = or_else (to_userEmail opts) (or_else (to_distinctId opts) []) \<and>
     t_distinctId (w_trace (run e cs (start st t))) = t_distinctId t \<and>
     (\<forall>s \<in> set (w_spans (run e cs (start st t))). s_distinctId s = t_distinctId t) \<and>
     (\<forall>g \<in> set (w_generations (run e cs (start st t))). g_distinctId g = t_distinctId t) \<and>
     (\<forall>x \<in> set (w_embeddings (run e cs (start st t))). e_distinctId x = t_distinctId t) \<and>
     (\<forall>m \<in> set (drop (length (captured st)) (captured (w_llm (run e cs (start st t))))).
        c_distinctId m = t_distinctId t)"
proof -
  from assms have "t_distinctId t = or_else (to_userEmail opts) (or_else (to_distinctId opts) [])"
    by (auto simp add: trace_def Trace_new_def Trace_make_def truthy_string_def or_else_def
        split: if_splits option.splits)
  moreover from run_carries [OF start_carries, of t st e cs]
  have "carries (t_distinctId t) (length (captured st)) (run e cs (start st t))" .
  ultimately show ?thesis
    by (simp add: carries_def)
qed

lemma trace_sample: "trace 0 ''trace-1'' PostHogLLM_initial sample_trace_options = Inr sample_trace"
  by (simp add: trace_def Trace_new_def Trace_make_def truthy_string_def or_else_def or_false_def
      PostHogLLM_initial_def sample_trace_options_def sample_trace_def)

lemma Trace_span_sample_other:
  "Trace_span 10 ''span-1'' sample_trace
     (sample_span_options\<lparr>so_distinctId := Some ''someone-else''\<rparr>) =
   Inr (sample_span\<lparr>s_startTime := 10, s_properties := Some (spread2 None None)\<rparr>)"
  by (simp add: Trace_span_def Span_new_def truthy_string_def or_else_def or_false_def
      sample_trace_def sample_span_options_def sample_span_def)

theorem subject_identifier_inherited_witness:
  "trace 0 ''trace-1'' PostHogLLM_initial sample_trace_options = Inr sample_trace \<and>
   (let w = run sample_env
              [(10, ''span-1'',
                Call_Trace_span (sample_span_options\<lparr>so_distinctId := Some ''someone-else''\<rparr>)),
               (40, [], Call_Span_end 0 None),
               (60, [], Call_Trace_end None)]
              (start PostHogLLM_initial sample_trace)
    in length (w_spans w) = 1 \<and>
       list_all (\<lambda>s. s_distinctId s = ''user-123'') (w_spans w) \<and>
       length (captured (w_llm w)) = 2 \<and>
       list_all (\<lambda>m. c_distinctId m = ''user-123'') (captured (w_llm w)))"
proof -
  let ?o = "sample_span_options\<lparr>so_distinctId := Some ''someone-else''\<rparr>"
  let ?s = "sample_span\<lparr>s_startTime := 10, s_properties := Some (spread2 None None)\<rparr>"
  let ?cs = "[(10, ''span-1'', Call_Trace_span ?o), (40, [], Call_Span_end 0 None),
      (60, [], Call_Trace_end None)]"
  let ?w = "run sample_env ?cs (start PostHogLLM_initial sample_trace)"
  let ?st = "snd (Span_end sample_env 40 ?s (None :: SpanEndOptions option) PostHogLLM_initial)"
  have d: "t_distinctId sample_trace = ''user-123''"
    by (simp add: sample_trace_def)
  have w1: "step sample_env 10 ''span-1'' (Call_Trace_span ?o) (start PostHogLLM_initial sample_trace) =
      (start PostHogLLM_initial sample_trace)\<lparr>w_spans := [?s]\<rparr>"
    by (simp add: start_def Trace_span_sample_other)
  have w: "w_spans ?w = [Span_end_apply ?s (None :: SpanEndOptions option)] \<and>
      w_llm ?w = snd (Trace_end sample_env 60 sample_trace (None :: TraceEndOptions option) ?st)"
    by (simp only: run.simps w1) (simp add: start_def Let_def case_prod_beta Span_end_fst)
  have c: "length (captured (snd (Trace_end sample_env 60 sample_trace
      (None :: TraceEndOptions option) ?st))) = 2"
    by (simp add: Trace_end_captured [OF Span_end_client [OF getClient_sample]]
        Span_end_captured [OF getClient_sample] captured_initial)
  from subject_identifier_inherited [OF trace_sample, of sample_env ?cs] w c trace_sample
  show ?thesis
    unfolding Let_def d by (simp add: list_all_iff captured_initial)
qed

section \<open>C4: the error field\<close>

text \<open>
  C4, as the code has it. Closing a unit of any variant with a client at hand emits one
  event. Its \<^verbatim>\<open>$ai_error\<close> entry is the normalized error when the error flag is true and the
  error value is truthy: the \<^verbatim>\<open>JSON.stringify\<close> string of an object, a non-empty string
  unchanged. Otherwise (flag false, no error value, or the empty string as error value) the
  code sets no error field, and the entry is what the custom properties hold under
  \<^verbatim>\<open>$ai_error\<close>: nothing, unless they have that key.
\<close>

theorem error_field:
  assumes "fst (getClient e st) \<noteq> None"
  shows
    "(\<exists>ev. captured (snd (Trace_end e now t topts st)) = captured st @ [ev] \<and>
        c_properties ev ''$ai_error'' =
          (case (if t_isError (fst (Trace_end e now t topts st))
                 then t_error (fst (Trace_end e now t topts st)) else None) of
             None \<Rightarrow> custom (t_properties t) ''$ai_error''
           | Some (ErrorObject obj) \<Rightarrow> Some (PString (JSON_stringify e (JObj obj)))
           | Some (ErrorString m) \<Rightarrow>
               (if m \<noteq> [] then Some (PString m) else custom (t_properties t) ''$ai_error''))) \<and>
     (\<exists>ev. captured (snd (Span_end e now s sopts st)) = captured st @ [ev] \<and>
        c_properties ev ''$ai_error'' =
          (case (if s_isError (fst (Span_end e now s sopts st))
                 then s_error (fst (Span_end e now s sopts st)) else None) of
             None \<Rightarrow> custom (s_properties s) ''$ai_error''
           | Some (ErrorObject obj) \<Rightarrow> Some (PString (JSON_stringify e (JObj obj)))
           | Some (ErrorString m) \<Rightarrow>
               (if m \<noteq> [] then Some (PString m) else custom (s_properties s) ''$ai_error''))) \<and>
     (\<exists>ev. captured (snd (Generation_end e now g gopts st)) = captured st @ [ev] \<and>
        c_properties ev ''$ai_error'' =
          (case (if g_isError (fst (Generation_end e now g gopts st))
                 then g_error (fst (Generation_end e now g gopts st)) else None) of
             None \<Rightarrow> custom (g_properties g) ''$ai_error''
           | Some (ErrorObject obj) \<Rightarrow> Some (PString (JSON_stringify e (JObj obj)))
           | Some (ErrorString m) \<Rightarrow>
               (if m \<noteq> [] then Some (PString m) else custom (g_properties g) ''$ai_error''))) \<and>
     (\<exists>ev. captured (snd (Embedding_end e now x xopts st)) = captured st @ [ev] \<and>
        c_properties ev ''$ai_error'' =
          (case (if e_isError (fst (Embedding_end e now x xopts st))
                 then e_error (fst (Embedding_end e now x xopts st)) else None) of
             None \<Rightarrow> custom (e_properties x) ''$ai_error''
           | Some (ErrorObject obj) \<Rightarrow> Some (PString (JSON_stringify e (JObj obj)))
           | Some (ErrorString m) \<Rightarrow>
               (if m \<noteq> [] then Some (PString m) else custom (e_properties x) ''$ai_error'')))"
proof -
  note facts = end_captured [OF assms] end_fst end_apply_properties error_cases
  have 1: "\<exists>ev. captured (snd (Trace_end e now t topts st)) = captured st @ [ev] \<and>
        c_properties ev ''$ai_error'' =
          (case (if t_isError (fst (Trace_end e now t topts st))
                 then t_error (fst (Trace_end e now t topts st)) else None) of
             None \<Rightarrow> custom (t_properties t) ''$ai_error''
           | Some (ErrorObject obj) \<Rightarrow> Some (PString (JSON_stringify e (JObj obj)))
           | Some (ErrorString m) \<Rightarrow>
               (if m \<noteq> [] then Some (PString m) else custom (t_properties t) ''$ai_error''))"
    by (simp add: facts Trace_properties_error split: option.splits error_value.splits)
  have 2: "\<exists>ev. captured (snd (Span_end e now s sopts st)) = captured st @ [ev] \<and>
        c_properties ev ''$ai_error'' =
          (case (if s_isError (fst (Span_end e now s sopts st))
                 then s_error (fst (Span_end e now s sopts st)) else None) of
             None \<Rightarrow> custom (s_properties s) ''$ai_error''
           | Some (ErrorObject obj) \<Rightarrow> Some (PString (JSON_stringify e (JObj obj)))
           | Some (ErrorString m) \<Rightarrow>
               (if m \<noteq> [] then Some (PString m) else custom (s_properties s) ''$ai_error''))"
    by (simp add: facts Span_properties_error split: option.splits error_value.splits)
  have 3: "\<exists>ev. captured (snd (Generation_end e now g gopts st)) = captured st @ [ev] \<and>
        c_properties ev ''$ai_error'' =
          (case (if g_isError (fst (Generation_end e now g gopts st))
                 then g_error (fst (Generation_end e now g gopts st)) else None) of
             None \<Rightarrow> custom (g_properties g) ''$ai_error''
           | Some (ErrorObject obj) \<Rightarrow> Some (PString (JSON_stringify e (JObj obj)))
           | Some (ErrorString m) \<Rightarrow>
               (if m \<noteq> [] then Some (PString m) else custom (g_properties g) ''$ai_error''))"
    by (simp add: facts Generation_properties_error split: option.splits error_value.splits)
  have 4: "\<exists>ev. captured (snd (Embedding_end e now x xopts st)) = captured st @ [ev] \<and>
        c_properties ev ''$ai_error'' =
          (case (if e_isError (fst (Embedding_end e now x xopts st))
                 then e_error (fst (Embedding_end e now x xopts st)) else None) of
             None \<Rightarrow> custom (e_properties x) ''$ai_error''
           | Some (ErrorObject obj) \<Rightarrow> Some (PString (JSON_stringify e (JObj obj)))
           | Some (ErrorString m) \<Rightarrow>
               (if m \<noteq> [] then Some (PString m) else custom (e_properties x) ''$ai_error''))"
    by (simp add: facts Embedding_properties_error split: option.splits error_value.splits)
  from 1 2 3 4 show ?thesis by blast
qed


theorem error_field_witness:
  "fst (getClient sample_env PostHogLLM_initial) \<noteq> None \<and>
   (\<exists>ev. captured (snd (Trace_end sample_env 2000 sample_trace
            (Some (no_trace_end\<lparr>te_error := Some (ErrorObject [(''message'', JStr ''boom'')]),
                                 te_isError := Some True\<rparr>)) PostHogLLM_initial)) = [ev] \<and>
      c_properties ev ''$ai_error'' =
        Some (PString (JSON_stringify sample_env (JObj [(''message'', JStr ''boom'')])))) \<and>
   (\<exists>ev. captured (snd (Span_end sample_env 2000 sample_span
            (Some (no_span_end\<lparr>se_error := Some (ErrorString ''boom''), se_isError := Some True\<rparr>))
            PostHogLLM_initial)) = [ev] \<and>
      c_properties ev ''$ai_error'' = Some (PString ''boom'')) \<and>
   (\<exists>ev. captured (snd (Generation_end sample_env 2000 sample_generation
            (Some (no_generation_end\<lparr>ge_error := Some (ErrorString ''boom'')\<rparr>))
            PostHogLLM_initial)) = [ev] \<and>
      c_properties ev ''$ai_error'' = None) \<and>
   (\<exists>ev. captured (snd (Embedding_end sample_env 2000 sample_embedding
            (Some (no_embedding_end\<lparr>ee_isError := Some True\<rparr>)) PostHogLLM_initial)) = [ev] \<and>
      c_properties ev ''$ai_error'' = None)"
  using error_field [OF getClient_sample, of 2000 sample_trace
      "Some (no_trace_end\<lparr>te_error := Some (ErrorObject [(''message'', JStr ''boom'')]),
                           te_isError := Some True\<rparr>)"
      sample_span
      "Some (no_span_end\<lparr>se_error := Some (ErrorString ''boom''), se_isError := Some True\<rparr>)"
      sample_generation
      "Some (no_generation_end\<lparr>ge_error := Some (ErrorString ''boom'')\<rparr>)"
      sample_embedding
      "Some (no_embedding_end\<lparr>ee_isError := Some True\<rparr>)"]
    getClient_sample
  by (auto simp add: end_fst end_apply_defs sample_defs captured_initial truthy_error_def
      truthy_any_def Let_def custom_def spread_def)

text \<open>
  C4 as written fails twice: error flag true with the error value \<^verbatim>\<open>""\<close> emits no error
  field, and error flag false with a custom property \<^verbatim>\<open>$ai_error\<close> emits one.
\<close>

theorem error_field_counterexample:
  "c_properties (last (captured (snd (Span_end sample_env 2000 sample_span
      (Some (no_span_end\<lparr>se_error := Some (ErrorString []), se_isError := Some True\<rparr>))
      PostHogLLM_initial)))) ''$ai_error'' = None \<and>
   c_properties (last (captured (snd (Span_end sample_env 2000
      (sample_span\<lparr>s_properties := Some [''$ai_error'' \<mapsto> ''none'']\<rparr>)
      (Some (no_span_end\<lparr>se_error := Some (ErrorString ''boom''), se_isError := Some False\<rparr>))
      PostHogLLM_initial)))) ''$ai_error'' = Some (PString ''none'')"
  by (simp add: Span_end_captured [OF getClient_sample] Span_properties_error
      Span_end_apply_def sample_span_def no_span_end_def captured_initial truthy_error_def
      custom_def spread_def)

section \<open>C5: the parent of a span\<close>

lemma Span_properties_parent_id:
  "Span_properties e s lat ''$ai_parent_id'' =
     Some (PString (case spread (s_properties s) ''$ai_parent_id'' of
                      None \<Rightarrow> or_else (s_parentId s) (s_traceId s)
                    | Some v \<Rightarrow> v))"
  by (simp add: Span_properties_literal map_add_def custom_def split: option.splits)

lemma Trace_properties_ids:
  "Trace_properties e t lat ''$ai_span_id'' =
     Some (PString (case spread (t_properties t) ''$ai_span_id'' of None \<Rightarrow> t_id t | Some v \<Rightarrow> v))"
  "Trace_properties e t lat ''$ai_trace_id'' =
     Some (PString (case spread (t_properties t) ''$ai_trace_id'' of None \<Rightarrow> t_id t | Some v \<Rightarrow> v))"
  by (simp_all add: Trace_properties_literal map_add_def custom_def split: option.splits)

text \<open>
  C5, as the code has it. With a client at hand, a span created from a trace, updated any
  number of times and closed, emits as \<^verbatim>\<open>$ai_parent_id\<close> the id of the trace; a span created
  from a span \<open>p\<close> (itself constructed with a non-empty allocated identifier) emits the id
  of \<open>p\<close>; and a trace emits its own id as \<^verbatim>\<open>$ai_span_id\<close> and as \<^verbatim>\<open>$ai_trace_id\<close>. Each
  of these holds unless the unit's merged custom properties have a key of that name, whose
  value is then emitted in its place.
\<close>

theorem parent_linkage:
  assumes "fst (getClient e st) \<noteq> None"
  shows
    "(\<forall>c. Trace_span n0 u0 t o0 = Inr c \<longrightarrow>
        (\<exists>ev. captured (snd (Span_end e now (foldl Span_update c us) sopts st)) =
                 captured st @ [ev] \<and>
           c_properties ev ''$ai_parent_id'' =
             Some (PString
               (case spread2 (t_properties t) (so_properties o0) ''$ai_parent_id'' of
                  None \<Rightarrow> t_id t
                | Some v \<Rightarrow> v)))) \<and>
     (\<forall>p c. Span_new n1 u1 tid pid o1 = Inr p \<and> u1 \<noteq> [] \<and>
        Span_span n2 u2 (foldl Span_update p ups) o2 = Inr c \<longrightarrow>
        (\<exists>ev. captured (snd (Span_end e now (foldl Span_update c us) sopts st)) =
                 captured st @ [ev] \<and>
           c_properties ev ''$ai_parent_id'' =
             Some (PString
               (case spread2 (s_properties p) (so_properties o2) ''$ai_parent_id'' of
                  None \<Rightarrow> s_id p
                | Some v \<Rightarrow> v)))) \<and>
     (\<exists>ev. captured (snd (Trace_end e now t topts st)) = captured st @ [ev] \<and>
        c_properties ev ''$ai_span_id'' =
          Some (PString (case spread (t_properties t) ''$ai_span_id'' of
                           None \<Rightarrow> t_id t
                         | Some v \<Rightarrow> v)) \<and>
        c_properties ev ''$ai_trace_id'' =
          Some (PString (case spread (t_properties t) ''$ai_trace_id'' of
                           None \<Rightarrow> t_id t
                         | Some v \<Rightarrow> v)))"
proof (intro conjI allI impI)
  fix c assume a: "Trace_span n0 u0 t o0 = Inr c"
  show "\<exists>ev. captured (snd (Span_end e now (foldl Span_update c us) sopts st)) =
                 captured st @ [ev] \<and>
           c_properties ev ''$ai_parent_id'' =
             Some (PString
               (case spread2 (t_properties t) (so_properties o0) ''$ai_parent_id'' of
                  None \<Rightarrow> t_id t
                | Some v \<Rightarrow> v))"
    by (simp add: Span_end_captured [OF assms] Span_properties_parent_id
        Span_end_apply_properties Span_end_apply_unchanged foldl_Span_update_unchanged
        Trace_span_fields [OF a] spread_def or_else_def cong: option.case_cong)
next
  fix p c
  assume "Span_new n1 u1 tid pid o1 = Inr p \<and> u1 \<noteq> [] \<and>
        Span_span n2 u2 (foldl Span_update p ups) o2 = Inr c"
  then have p: "Span_new n1 u1 tid pid o1 = Inr p" and u: "u1 \<noteq> []"
    and a: "Span_span n2 u2 (foldl Span_update p ups) o2 = Inr c" by simp_all
  from u Span_new_fields(5) [OF p] have id: "s_id p \<noteq> []"
    by (simp add: or_else_def split: option.splits)
  show "\<exists>ev. captured (snd (Span_end e now (foldl Span_update c us) sopts st)) =
                 captured st @ [ev] \<and>
           c_properties ev ''$ai_parent_id'' =
             Some (PString
               (case spread2 (s_properties p) (so_properties o2) ''$ai_parent_id'' of
                  None \<Rightarrow> s_id p
                | Some v \<Rightarrow> v))"
    using id
    by (simp add: Span_end_captured [OF assms] Span_properties_parent_id
        Span_end_apply_properties Span_end_apply_unchanged foldl_Span_update_unchanged
        Span_span_fields [OF a] spread_def or_else_def cong: option.case_cong)
next
  show "\<exists>ev. captured (snd (Trace_end e now t topts st)) = captured st @ [ev] \<and>
        c_properties ev ''$ai_span_id'' =
          Some (PString (case spread (t_properties t) ''$ai_span_id'' of
                           None \<Rightarrow> t_id t
                         | Some v \<Rightarrow> v)) \<and>
        c_properties ev ''$ai_trace_id'' =
          Some (PString (case spread (t_properties t) ''$ai_trace_id'' of
                           None \<Rightarrow> t_id t
                         | Some v \<Rightarrow> v))"
    by (simp add: Trace_end_captured [OF assms] Trace_properties_ids
        Trace_end_apply_properties Trace_end_apply_unchanged cong: option.case_cong)
qed

lemma Span_span_sample:
  "Span_span 20 ''span-2'' sample_span (sample_span_options\<lparr>so_name := ''tokenization''\<rparr>) =
   Inr (sample_span\<lparr>s_id := ''span-2'', s_parentId := Some ''span-1'', s_name := ''tokenization'',
     s_startTime := 20, s_properties := Some (spread2 (Some Map.empty) None)\<rparr>)"
  by (simp add: Span_span_def Span_new_def truthy_string_def or_else_def or_false_def
      sample_span_options_def sample_span_def)

lemma Span_new_sample:
  "Span_new 0 ''span-1'' ''trace-1'' None
     (sample_span_options\<lparr>so_distinctId := Some ''user-123'', so_properties := Some Map.empty\<rparr>) =
   Inr sample_span"
  by (simp add: Span_new_def truthy_string_def or_else_def or_false_def
      sample_span_options_def sample_span_def)

lemma Trace_span_sample_plain:
  "Trace_span 10 ''span-1'' sample_trace sample_span_options =
   Inr (sample_span\<lparr>s_startTime := 10, s_properties := Some (spread2 None None)\<rparr>)"
  by (simp add: Trace_span_def Span_new_def truthy_string_def or_else_def or_false_def
      sample_trace_def sample_span_options_def sample_span_def)

theorem parent_linkage_witness:
  "fst (getClient sample_env PostHogLLM_initial) \<noteq> None \<and>
   (\<exists>c ev. Trace_span 10 ''span-1'' sample_trace sample_span_options = Inr c \<and>
      captured (snd (Span_end sample_env 2000 c (Some no_span_end) PostHogLLM_initial)) = [ev] \<and>
      c_properties ev ''$ai_parent_id'' = Some (PString ''trace-1'')) \<and>
   (\<exists>c ev. Span_span 20 ''span-2'' sample_span
        (sample_span_options\<lparr>so_name := ''tokenization''\<rparr>) = Inr c \<and>
      captured (snd (Span_end sample_env 2000 c (Some no_span_end) PostHogLLM_initial)) = [ev] \<and>
      c_properties ev ''$ai_parent_id'' = Some (PString ''span-1'')) \<and>
   (\<exists>ev. captured (snd (Trace_end sample_env 2000 sample_trace (Some no_trace_end)
        PostHogLLM_initial)) = [ev] \<and>
      c_properties ev ''$ai_span_id'' = Some (PString ''trace-1'') \<and>
      c_properties ev ''$ai_trace_id'' = Some (PString ''trace-1''))"
proof -
  note th = parent_linkage [OF getClient_sample, of 10 "''span-1''" sample_trace
      sample_span_options 2000 "[]" "Some no_span_end" 0 "''span-1''" "''trace-1''" None
      "sample_span_options\<lparr>so_distinctId := Some ''user-123'', so_properties := Some Map.empty\<rparr>"
      20 "''span-2''" "[]" "sample_span_options\<lparr>so_name := ''tokenization''\<rparr>"
      "Some no_trace_end"]
  have v1: "(case spread2 (t_properties sample_trace) (so_properties sample_span_options)
        ''$ai_parent_id'' of None \<Rightarrow> t_id sample_trace | Some v \<Rightarrow> v) = ''trace-1''"
    by (simp add: spread2_def spread_def sample_trace_def sample_span_options_def)
  have v2: "(case spread2 (s_properties sample_span)
        (so_properties (sample_span_options\<lparr>so_name := ''tokenization''\<rparr>))
        ''$ai_parent_id'' of None \<Rightarrow> s_id sample_span | Some v \<Rightarrow> v) = ''span-1''"
    by (simp add: spread2_def spread_def sample_span_def sample_span_options_def)
  have v3: "(case spread (t_properties sample_trace) ''$ai_span_id'' of
        None \<Rightarrow> t_id sample_trace | Some v \<Rightarrow> v) = ''trace-1''"
    "(case spread (t_properties sample_trace) ''$ai_trace_id'' of
        None \<Rightarrow> t_id sample_trace | Some v \<Rightarrow> v) = ''trace-1''"
    by (simp_all add: spread_def sample_trace_def)
  from th [THEN conjunct1, rule_format, OF Trace_span_sample_plain]
  have 1: "\<exists>c ev. Trace_span 10 ''span-1'' sample_trace sample_span_options = Inr c \<and>
      captured (snd (Span_end sample_env 2000 c (Some no_span_end) PostHogLLM_initial)) = [ev] \<and>
      c_properties ev ''$ai_parent_id'' = Some (PString ''trace-1'')"
    unfolding v1 by (simp add: Trace_span_sample_plain captured_initial)
  have "Span_new 0 ''span-1'' ''trace-1'' None
        (sample_span_options\<lparr>so_distinctId := Some ''user-123'', so_properties := Some Map.empty\<rparr>) =
        Inr sample_span \<and> ''span-1'' \<noteq> [] \<and>
      Span_span 20 ''span-2'' (foldl Span_update sample_span [])
        (sample_span_options\<lparr>so_name := ''tokenization''\<rparr>) =
      Inr (sample_span\<lparr>s_id := ''span-2'', s_parentId := Some ''span-1'', s_name := ''tokenization'',
        s_startTime := 20, s_properties := Some (spread2 (Some Map.empty) None)\<rparr>)"
    by (simp add: Span_new_sample Span_span_sample)
  from th [THEN conjunct2, THEN conjunct1, rule_format, OF this]
  have 2: "\<exists>c ev. Span_span 20 ''span-2'' sample_span
        (sample_span_options\<lparr>so_name := ''tokenization''\<rparr>) = Inr c \<and>
      captured (snd (Span_end sample_env 2000 c (Some no_span_end) PostHogLLM_initial)) = [ev] \<and>
      c_properties ev ''$ai_parent_id'' = Some (PString ''span-1'')"
    unfolding v2 by (simp add: Span_span_sample captured_initial)
  from th [THEN conjunct2, THEN conjunct2]
  have 3: "\<exists>ev. captured (snd (Trace_end sample_env 2000 sample_trace (Some no_trace_end)
        PostHogLLM_initial)) = [ev] \<and>
      c_properties ev ''$ai_span_id'' = Some (PString ''trace-1'') \<and>
      c_properties ev ''$ai_trace_id'' = Some (PString ''trace-1'')"
    unfolding v3 by (simp add: captured_initial)
  from 1 2 3 getClient_sample show ?thesis by blast
qed

text \<open>
  C5 as written fails where a custom property has the name of the field: a span created
  from the trace \<^verbatim>\<open>trace-1\<close> with the custom property \<^verbatim>\<open>$ai_parent_id\<close> emits that
  property, not the id of the trace.
\<close>

theorem parent_linkage_counterexample:
  "t_id sample_trace = ''trace-1'' \<and>
   (case Trace_span 10 ''span-1'' sample_trace
           (sample_span_options\<lparr>so_properties := Some [''$ai_parent_id'' \<mapsto> ''elsewhere'']\<rparr>) of
      Inl err \<Rightarrow> False
    | Inr c \<Rightarrow>
        c_properties (last (captured (snd (Span_end sample_env 2000 c (Some no_span_end)
          PostHogLLM_initial)))) ''$ai_parent_id'' = Some (PString ''elsewhere''))"
  by (simp add: Trace_span_def Span_new_def truthy_string_def or_else_def or_false_def
      Span_end_captured [OF getClient_sample] Span_properties_parent_id
      Span_end_apply_def Let_def no_span_end_def captured_initial truthy_error_def
      spread2_def spread_def map_add_def sample_trace_def sample_span_options_def)

section \<open>C6: the subject identifier of a trace\<close>

text \<open>
  C6, as the code has it. \<^verbatim>\<open>PostHogLLM.trace\<close> reads the subject identifier from its options
  only: whatever the process-wide state holds (a configured default distinct id too), the
  construction throws when the options hold neither a non-empty user email nor a non-empty
  distinct id, and otherwise returns a trace whose subject identifier is the user email if
  that is non-empty, else the distinct id.
\<close>

theorem trace_subject_identifier:
  "(\<not> truthy_string (to_userEmail opts) \<and> \<not> truthy_string (to_distinctId opts) \<longrightarrow>
      trace now uuid st opts =
        Inl (Error ''A user email (userEmail) is required for PostHog tracing'')) \<and>
   (\<forall>m. to_userEmail opts = Some m \<and> m \<noteq> [] \<longrightarrow>
      (\<exists>t. trace now uuid st opts = Inr t \<and> t_distinctId t = m)) \<and>
   (\<forall>d. \<not> truthy_string (to_userEmail opts) \<and> to_distinctId opts = Some d \<and> d \<noteq> [] \<longrightarrow>
      (\<exists>t. trace now uuid st opts = Inr t \<and> t_distinctId t = d))"
  by (auto simp add: trace_def Trace_new_def Trace_make_def truthy_string_def)

theorem trace_subject_identifier_witness:
  "trace 0 ''uuid-1'' PostHogLLM_initial
     \<lparr>to_id = None, to_name = ''example-operation'', to_inputState = None, to_outputState = None,
      to_privacy = None, to_userEmail = None, to_distinctId = None, to_metadata = None,
      to_properties = None, to_isError = None, to_error = None\<rparr> =
     Inl (Error ''A user email (userEmail) is required for PostHog tracing'') \<and>
   (\<exists>t. trace 0 ''uuid-1'' PostHogLLM_initial
     \<lparr>to_id = None, to_name = ''example-operation'', to_inputState = None, to_outputState = None,
      to_privacy = None, to_userEmail = Some ''user@example.com'', to_distinctId = Some ''user-123'',
      to_metadata = None, to_properties = None, to_isError = None, to_error = None\<rparr> = Inr t \<and>
      t_distinctId t = ''user@example.com'') \<and>
   (\<exists>t. trace 0 ''uuid-1'' PostHogLLM_initial
     \<lparr>to_id = None, to_name = ''example-operation'', to_inputState = None, to_outputState = None,
      to_privacy = None, to_userEmail = None, to_distinctId = Some ''user-123'',
      to_metadata = None, to_properties = None, to_isError = None, to_error = None\<rparr> = Inr t \<and>
      t_distinctId t = ''user-123'')"
  using
    trace_subject_identifier [of
      "\<lparr>to_id = None, to_name = ''example-operation'', to_inputState = None, to_outputState = None,
        to_privacy = None, to_userEmail = None, to_distinctId = None, to_metadata = None,
        to_properties = None, to_isError = None, to_error = None\<rparr>" 0 "''uuid-1''" PostHogLLM_initial]
    trace_subject_identifier [of
      "\<lparr>to_id = None, to_name = ''example-operation'', to_inputState = None, to_outputState = None,
        to_privacy = None, to_userEmail = Some ''user@example.com'', to_distinctId = Some ''user-123'',
        to_metadata = None, to_properties = None, to_isError = None, to_error = None\<rparr>"
      0 "''uuid-1''" PostHogLLM_initial]
    trace_subject_identifier [of
      "\<lparr>to_id = None, to_name = ''example-operation'', to_inputState = None, to_outputState = None,
        to_privacy = None, to_userEmail = None, to_distinctId = Some ''user-123'',
        to_metadata = None, to_properties = None, to_isError = None, to_error = None\<rparr>"
      0 "''uuid-1''" PostHogLLM_initial]
  by (simp add: truthy_string_def)

text \<open>
  C6 as written fails where only a process-wide default is configured: after
  \<^verbatim>\<open>init({ defaultDistinctId: "default-user" })\<close>, a trace whose options name no user is not
  constructed.
\<close>

theorem trace_subject_identifier_counterexample:
  "getDefaultDistinctId
     (init sample_env
        (Some \<lparr>o_apiKey = None, o_host = None, o_defaultPrivacyMode = None,
                o_defaultDistinctId = Some ''default-user''\<rparr>) PostHogLLM_initial) =
     Some ''default-user'' \<and>
   trace 0 ''uuid-1''
     (init sample_env
        (Some \<lparr>o_apiKey = None, o_host = None, o_defaultPrivacyMode = None,
                o_defaultDistinctId = Some ''default-user''\<rparr>) PostHogLLM_initial)
     \<lparr>to_id = None, to_name = ''example-operation'', to_inputState = None, to_outputState = None,
      to_privacy = None, to_userEmail = None, to_distinctId = None, to_metadata = None,
      to_properties = None, to_isError = None, to_error = None\<rparr> =
     Inl (Error ''A user email (userEmail) is required for PostHog tracing'')"
  by (simp add: getDefaultDistinctId_def init_def merge_options_def Let_def sample_env_def
      PostHogLLM_initial_def trace_def Trace_new_def truthy_string_def)

section \<open>C7: the latency field\<close>

text \<open>
  C7, as the code has it. With a client at hand, closing a generation or an embedding with a
  latency in the end options stores exactly that latency in the unit (else the measured
  time), and the \<^verbatim>\<open>$ai_latency\<close> entry of the event is the stored latency. The end options
  of a trace and of a span have no latency: whatever the options hold, the entry is the
  measured time, (end - start) / 1000. In all four variants a custom property
  \<^verbatim>\<open>$ai_latency\<close> replaces the entry.
\<close>

theorem latency_field:
  assumes "fst (getClient e st) \<noteq> None"
  shows
    "(\<exists>ev. captured (snd (Trace_end e now t topts st)) = captured st @ [ev] \<and>
        c_properties ev ''$ai_latency'' =
          Some (case spread (t_properties t) ''$ai_latency'' of
                  None \<Rightarrow> PNumber (of_int (now - t_startTime t) / 1000)
                | Some v \<Rightarrow> PString v)) \<and>
     (\<exists>ev. captured (snd (Span_end e now s sopts st)) = captured st @ [ev] \<and>
        c_properties ev ''$ai_latency'' =
          Some (case spread (s_properties s) ''$ai_latency'' of
                  None \<Rightarrow> PNumber (of_int (now - s_startTime s) / 1000)
                | Some v \<Rightarrow> PString v)) \<and>
     (\<exists>ev. captured (snd (Generation_end e now g gopts st)) = captured st @ [ev] \<and>
        g_latency (fst (Generation_end e now g gopts st)) =
          Some (case (case gopts of None \<Rightarrow> None | Some opt \<Rightarrow> ge_latency opt) of
                  None \<Rightarrow> of_int (now - g_startTime g) / 1000
                | Some l \<Rightarrow> l) \<and>
        c_properties ev ''$ai_latency'' =
          Some (case spread (g_properties g) ''$ai_latency'' of
                  None \<Rightarrow> PNumber
                    (case (case gopts of None \<Rightarrow> None | Some opt \<Rightarrow> ge_latency opt) of
                       None \<Rightarrow> of_int (now - g_startTime g) / 1000
                     | Some l \<Rightarrow> l)
                | Some v \<Rightarrow> PString v)) \<and>
     (\<exists>ev. captured (snd (Embedding_end e now x xopts st)) = captured st @ [ev] \<and>
        e_latency (fst (Embedding_end e now x xopts st)) =
          Some (case (case xopts of None \<Rightarrow> None | Some opt \<Rightarrow> ee_latency opt) of
                  None \<Rightarrow> of_int (now - e_startTime x) / 1000
                | Some l \<Rightarrow> l) \<and>
        c_properties ev ''$ai_latency'' =
          Some (case spread (e_properties x) ''$ai_latency'' of
                  None \<Rightarrow> PNumber
                    (case (case xopts of None \<Rightarrow> None | Some opt \<Rightarrow> ee_latency opt) of
                       None \<Rightarrow> of_int (now - e_startTime x) / 1000
                     | Some l \<Rightarrow> l)
                | Some v \<Rightarrow> PString v))"
proof -
  note facts = end_captured [OF assms] end_fst end_apply_properties end_apply_unchanged
  have lg: "g_latency (Generation_end_apply now g gopts) =
      Some (case (case gopts of None \<Rightarrow> None | Some opt \<Rightarrow> ge_latency opt) of
              None \<Rightarrow> of_int (now - g_startTime g) / 1000
            | Some l \<Rightarrow> l)"
    by (simp add: Generation_end_apply_def Let_def elapsed_def split: option.splits)
  have lx: "e_latency (Embedding_end_apply now x xopts) =
      Some (case (case xopts of None \<Rightarrow> None | Some opt \<Rightarrow> ee_latency opt) of
              None \<Rightarrow> of_int (now - e_startTime x) / 1000
            | Some l \<Rightarrow> l)"
    by (simp add: Embedding_end_apply_def Let_def elapsed_def split: option.splits)
  have 1: "\<exists>ev. captured (snd (Trace_end e now t topts st)) = captured st @ [ev] \<and>
        c_properties ev ''$ai_latency'' =
          Some (case spread (t_properties t) ''$ai_latency'' of
                  None \<Rightarrow> PNumber (of_int (now - t_startTime t) / 1000)
                | Some v \<Rightarrow> PString v)"
    by (simp add: facts Trace_properties_literal map_add_def custom_def elapsed_def
        split: option.splits)
  have 2: "\<exists>ev. captured (snd (Span_end e now s sopts st)) = captured st @ [ev] \<and>
        c_properties ev ''$ai_latency'' =
          Some (case spread (s_properties s) ''$ai_latency'' of
                  None \<Rightarrow> PNumber (of_int (now - s_startTime s) / 1000)
                | Some v \<Rightarrow> PString v)"
    by (simp add: facts Span_properties_literal map_add_def custom_def elapsed_def
        split: option.splits)
  have 3: "\<exists>ev. captured (snd (Generation_end e now g gopts st)) = captured st @ [ev] \<and>
        g_latency (fst (Generation_end e now g gopts st)) =
          Some (case (case gopts of None \<Rightarrow> None | Some opt \<Rightarrow> ge_latency opt) of
                  None \<Rightarrow> of_int (now - g_startTime g) / 1000
                | Some l \<Rightarrow> l) \<and>
        c_properties ev ''$ai_latency'' =
          Some (case spread (g_properties g) ''$ai_latency'' of
                  None \<Rightarrow> PNumber
                    (case (case gopts of None \<Rightarrow> None | Some opt \<Rightarrow> ge_latency opt) of
                       None \<Rightarrow> of_int (now - g_startTime g) / 1000
                     | Some l \<Rightarrow> l)
                | Some v \<Rightarrow> PString v)"
    by (simp add: facts lg Generation_properties_literal map_add_def custom_def
        split: option.splits)
  have 4: "\<exists>ev. captured (snd (Embedding_end e now x xopts st)) = captured st @ [ev] \<and>
        e_latency (fst (Embedding_end e now x xopts st)) =
          Some (case (case xopts of None \<Rightarrow> None | Some opt \<Rightarrow> ee_latency opt) of
                  None \<Rightarrow> of_int (now - e_startTime x) / 1000
                | Some l \<Rightarrow> l) \<and>
        c_properties ev ''$ai_latency'' =
          Some (case spread (e_properties x) ''$ai_latency'' of
                  None \<Rightarrow> PNumber
                    (case (case xopts of None \<Rightarrow> None | Some opt \<Rightarrow> ee_latency opt) of
                       None \<Rightarrow> of_int (now - e_startTime x) / 1000
                     | Some l \<Rightarrow> l)
                | Some v \<Rightarrow> PString v)"
    by (simp add: facts lx Embedding_properties_literal map_add_def custom_def
        split: option.splits)
  from 1 2 3 4 show ?thesis by blast
qed

theorem latency_field_witness:
  "fst (getClient sample_env PostHogLLM_initial) \<noteq> None \<and>
   (\<exists>ev. captured (snd (Trace_end sample_env 2000 sample_trace (Some no_trace_end)
            PostHogLLM_initial)) = [ev] \<and>
      c_properties ev ''$ai_latency'' = Some (PNumber 2)) \<and>
   (\<exists>ev. captured (snd (Span_end sample_env 100 sample_span (Some no_span_end)
            PostHogLLM_initial)) = [ev] \<and>
      c_properties ev ''$ai_latency'' = Some (PNumber (1 / 10))) \<and>
   (\<exists>ev. captured (snd (Generation_end sample_env 2000 sample_generation
            (Some (no_generation_end\<lparr>ge_latency := Some (1 / 2)\<rparr>)) PostHogLLM_initial)) = [ev] \<and>
      c_properties ev ''$ai_latency'' = Some (PNumber (1 / 2))) \<and>
   (\<exists>ev. captured (snd (Embedding_end sample_env 2000 sample_embedding
            (Some (no_embedding_end\<lparr>ee_latency := Some 0\<rparr>)) PostHogLLM_initial)) = [ev] \<and>
      c_properties ev ''$ai_latency'' = Some (PNumber 0))"
  using
    latency_field [OF getClient_sample, of 2000 sample_trace "Some no_trace_end"
      sample_span "Some no_span_end" sample_generation
      "Some (no_generation_end\<lparr>ge_latency := Some (1 / 2)\<rparr>)"
      sample_embedding "Some (no_embedding_end\<lparr>ee_latency := Some 0\<rparr>)"]
    latency_field [OF getClient_sample, of 100 sample_trace "Some no_trace_end"
      sample_span "Some no_span_end" sample_generation "Some no_generation_end"
      sample_embedding "Some no_embedding_end"]
    getClient_sample
  by (auto simp add: end_fst end_apply_defs sample_defs captured_initial truthy_any_def
      truthy_error_def Let_def custom_def spread_def)

text \<open>
  C7 as written fails twice: a trace constructed at 0 and closed at 2000 ms with end options
  that carry the latency 1/2 reports 2, and a generation closed with the latency 1/2 and a
  custom property \<^verbatim>\<open>$ai_latency\<close> reports the custom property.
\<close>

theorem latency_field_counterexample:
  "c_properties (last (captured (snd (Trace_end sample_env 2000 sample_trace
      (Some \<lparr>te_outputState = None, te_error = None, te_isError = None, te_latency = Some (1 / 2)\<rparr>)
      PostHogLLM_initial)))) ''$ai_latency'' = Some (PNumber 2) \<and>
   c_properties (last (captured (snd (Generation_end sample_env 2000
      (sample_generation\<lparr>g_properties := Some [''$ai_latency'' \<mapsto> ''fast'']\<rparr>)
      (Some (no_generation_end\<lparr>ge_latency := Some (1 / 2)\<rparr>))
      PostHogLLM_initial)))) ''$ai_latency'' = Some (PString ''fast'')"
  by (simp add: Trace_end_captured [OF getClient_sample]
      Generation_end_captured [OF getClient_sample]
      Trace_properties_literal Generation_properties_literal
      Trace_end_apply_def Generation_end_apply_def Let_def elapsed_def
      sample_trace_def sample_generation_def no_generation_end_def
      captured_initial truthy_any_def truthy_error_def custom_def spread_def map_add_def)

section \<open>C8: custom properties and reserved fields\<close>

text \<open>
  C8, as the code has it. The custom properties are spread into the object literal, before
  the fields that the code assigns afterwards. With a client at hand, a custom property wins
  on every key but those assigned afterwards: \<^verbatim>\<open>$ai_input_state\<close>, \<^verbatim>\<open>$ai_output_state\<close>,
  \<^verbatim>\<open>$ai_metadata\<close>, \<^verbatim>\<open>$ai_error\<close> for a trace and a span; \<^verbatim>\<open>$ai_output_choices\<close>,
  \<^verbatim>\<open>$ai_input_tokens\<close>, \<^verbatim>\<open>$ai_output_tokens\<close>, \<^verbatim>\<open>$ai_http_status\<close>, \<^verbatim>\<open>$ai_base_url\<close>,
  \<^verbatim>\<open>$ai_metadata\<close>, \<^verbatim>\<open>$ai_error\<close> for a generation; the same without the two output
  fields for an embedding. So it wins on the reserved fields of the literal:
  \<^verbatim>\<open>$ai_trace_id\<close>, \<^verbatim>\<open>$ai_span_id\<close>, \<^verbatim>\<open>$ai_span_name\<close>, \<^verbatim>\<open>$ai_parent_id\<close>, \<^verbatim>\<open>$ai_model\<close>,
  \<^verbatim>\<open>$ai_provider\<close>, \<^verbatim>\<open>$ai_input\<close>, \<^verbatim>\<open>$ai_latency\<close>, \<^verbatim>\<open>$ai_is_error\<close>.
\<close>

theorem custom_properties_override:
  assumes "fst (getClient e st) \<noteq> None"
  shows
    "(\<exists>ev. captured (snd (Trace_end e now t topts st)) = captured st @ [ev] \<and>
        (\<forall>k v. spread (t_properties t) k = Some v \<and>
           k \<notin> {''$ai_input_state'', ''$ai_output_state'', ''$ai_metadata'', ''$ai_error''} \<longrightarrow>
           c_properties ev k = Some (PString v))) \<and>
     (\<exists>ev. captured (snd (Span_end e now s sopts st)) = captured st @ [ev] \<and>
        (\<forall>k v. spread (s_properties s) k = Some v \<and>
           k \<notin> {''$ai_input_state'', ''$ai_output_state'', ''$ai_metadata'', ''$ai_error''} \<longrightarrow>
           c_properties ev k = Some (PString v))) \<and>
     (\<exists>ev. captured (snd (Generation_end e now g gopts st)) = captured st @ [ev] \<and>
        (\<forall>k v. spread (g_properties g) k = Some v \<and>
           k \<notin> {''$ai_output_choices'', ''$ai_input_tokens'', ''$ai_output_tokens'',
                ''$ai_http_status'', ''$ai_base_url'', ''$ai_metadata'', ''$ai_error''} \<longrightarrow>
           c_properties ev k = Some (PString v))) \<and>
     (\<exists>ev. captured (snd (Embedding_end e now x xopts st)) = captured st @ [ev] \<and>
        (\<forall>k v. spread (e_properties x) k = Some v \<and>
           k \<notin> {''$ai_input_tokens'', ''$ai_http_status'', ''$ai_base_url'', ''$ai_metadata'',
                ''$ai_error''} \<longrightarrow>
           c_properties ev k = Some (PString v)))"
proof -
  note facts = end_captured [OF assms] end_apply_properties
  have 1: "\<exists>ev. captured (snd (Trace_end e now t topts st)) = captured st @ [ev] \<and>
        (\<forall>k v. spread (t_properties t) k = Some v \<and>
           k \<notin> {''$ai_input_state'', ''$ai_output_state'', ''$ai_metadata'', ''$ai_error''} \<longrightarrow>
           c_properties ev k = Some (PString v))"
    by (simp add: facts Trace_properties_literal map_add_def custom_def)
  have 2: "\<exists>ev. captured (snd (Span_end e now s sopts st)) = captured st @ [ev] \<and>
        (\<forall>k v. spread (s_properties s) k = Some v \<and>
           k \<notin> {''$ai_input_state'', ''$ai_output_state'', ''$ai_metadata'', ''$ai_error''} \<longrightarrow>
           c_properties ev k = Some (PString v))"
    by (simp add: facts Span_properties_literal map_add_def custom_def)
  have 3: "\<exists>ev. captured (snd (Generation_end e now g gopts st)) = captured st @ [ev] \<and>
        (\<forall>k v. spread (g_properties g) k = Some v \<and>
           k \<notin> {''$ai_output_choices'', ''$ai_input_tokens'', ''$ai_output_tokens'',
                ''$ai_http_status'', ''$ai_base_url'', ''$ai_metadata'', ''$ai_error''} \<longrightarrow>
           c_properties ev k = Some (PString v))"
    by (simp add: facts Generation_properties_literal map_add_def custom_def)
  have 4: "\<exists>ev. captured (snd (Embedding_end e now x xopts st)) = captured st @ [ev] \<and>
        (\<forall>k v. spread (e_properties x) k = Some v \<and>
           k \<notin> {''$ai_input_tokens'', ''$ai_http_status'', ''$ai_base_url'', ''$ai_metadata'',
                ''$ai_error''} \<longrightarrow>
           c_properties ev k = Some (PString v))"
    by (simp add: facts Embedding_properties_literal map_add_def custom_def)
  from 1 2 3 4 show ?thesis by blast
qed

theorem custom_properties_override_witness:
  "fst (getClient sample_env PostHogLLM_initial) \<noteq> None \<and>
   (\<exists>ev. captured (snd (Trace_end sample_env 2000
            (sample_trace\<lparr>t_properties := Some [''$ai_span_name'' \<mapsto> ''renamed'']\<rparr>)
            (Some no_trace_end) PostHogLLM_initial)) = [ev] \<and>
      c_properties ev ''$ai_span_name'' = Some (PString ''renamed''))"
proof -
  from custom_properties_override [OF getClient_sample, of 2000
      "sample_trace\<lparr>t_properties := Some [''$ai_span_name'' \<mapsto> ''renamed'']\<rparr>"
      "Some no_trace_end" sample_span "Some no_span_end" sample_generation
      "Some no_generation_end" sample_embedding "Some no_embedding_end"]
  obtain ev where
    a: "captured (snd (Trace_end sample_env 2000
          (sample_trace\<lparr>t_properties := Some [''$ai_span_name'' \<mapsto> ''renamed'']\<rparr>)
          (Some no_trace_end) PostHogLLM_initial)) = captured PostHogLLM_initial @ [ev]"
    and b: "\<forall>k v. spread (t_properties
          (sample_trace\<lparr>t_properties := Some [''$ai_span_name'' \<mapsto> ''renamed'']\<rparr>)) k = Some v \<and>
        k \<notin> {''$ai_input_state'', ''$ai_output_state'', ''$ai_metadata'', ''$ai_error''} \<longrightarrow>
        c_properties ev k = Some (PString v)"
    by blast
  from b [rule_format, of "''$ai_span_name''" "''renamed''"]
  have "c_properties ev ''$ai_span_name'' = Some (PString ''renamed'')"
    by (simp add: spread_def)
  with a getClient_sample show ?thesis
    by (simp add: captured_initial)
qed

text \<open>
  C8 as written fails on a field assigned after the spread: a generation with 5 input tokens
  and the custom property \<^verbatim>\<open>$ai_input_tokens\<close> emits the number 5 under that key.
\<close>

theorem custom_properties_override_counterexample:
  "spread (g_properties (sample_generation\<lparr>g_properties := Some [''$ai_input_tokens'' \<mapsto> ''many'']\<rparr>))
      ''$ai_input_tokens'' = Some ''many'' \<and>
   c_properties (last (captured (snd (Generation_end sample_env 2000
      (sample_generation\<lparr>g_properties := Some [''$ai_input_tokens'' \<mapsto> ''many'']\<rparr>)
      (Some no_generation_end) PostHogLLM_initial)))) ''$ai_input_tokens'' = Some (PNumber 5)"
  by (simp add: Generation_end_captured [OF getClient_sample]
      Generation_properties_def Generation_end_apply_def Let_def
      sample_generation_def no_generation_end_def
      captured_initial truthy_any_def truthy_error_def truthy_string_def spread_def)

section \<open>C9: closing twice\<close>

text \<open>
  C9, as the code has it. With a client at hand, two calls of End on the same unit, at the times \<open>n1\<close> and
  \<open>n2\<close>, hand two events to the sink, one per call and in that order; nothing guards the
  second call. The event of each call is built from the unit as that call leaves it and from
  a duration computed in that call: for a trace and a span the time from the construction to
  that call, for a generation and an embedding the latency of that call's options if there
  is one and else the time from the construction to that call.
\<close>

theorem end_twice:
  assumes "fst (getClient e st) \<noteq> None"
  shows
    "(let (t1, st1) = Trace_end e n1 t topts1 st; (t2, st2) = Trace_end e n2 t1 topts2 st1
      in captured st2 = captured st @
           [\<lparr>c_distinctId = t_distinctId t, c_event = ''$ai_trace'',
             c_properties = Trace_properties e t1 (of_int (n1 - t_startTime t) / 1000)\<rparr>,
            \<lparr>c_distinctId = t_distinctId t, c_event = ''$ai_trace'',
             c_properties = Trace_properties e t2 (of_int (n2 - t_startTime t) / 1000)\<rparr>]) \<and>
     (let (s1, st1) = Span_end e n1 s sopts1 st; (s2, st2) = Span_end e n2 s1 sopts2 st1
      in captured st2 = captured st @
           [\<lparr>c_distinctId = s_distinctId s, c_event = ''$ai_span'',
             c_properties = Span_properties e s1 (of_int (n1 - s_startTime s) / 1000)\<rparr>,
            \<lparr>c_distinctId = s_distinctId s, c_event = ''$ai_span'',
             c_properties = Span_properties e s2 (of_int (n2 - s_startTime s) / 1000)\<rparr>]) \<and>
     (let (g1, st1) = Generation_end e n1 g gopts1 st; (g2, st2) = Generation_end e n2 g1 gopts2 st1
      in captured st2 = captured st @
           [\<lparr>c_distinctId = g_distinctId g, c_event = ''$ai_generation'',
             c_properties = Generation_properties e g1\<rparr>,
            \<lparr>c_distinctId = g_distinctId g, c_event = ''$ai_generation'',
             c_properties = Generation_properties e g2\<rparr>] \<and>
         g_latency g1 =
           Some (case (case gopts1 of None \<Rightarrow> None | Some opt \<Rightarrow> ge_latency opt) of
                   None \<Rightarrow> of_int (n1 - g_startTime g) / 1000
                 | Some l \<Rightarrow> l) \<and>
         g_latency g2 =
           Some (case (case gopts2 of None \<Rightarrow> None | Some opt \<Rightarrow> ge_latency opt) of
                   None \<Rightarrow> of_int (n2 - g_startTime g) / 1000
                 | Some l \<Rightarrow> l)) \<and>
     (let (x1, st1) = Embedding_end e n1 x xopts1 st; (x2, st2) = Embedding_end e n2 x1 xopts2 st1
      in captured st2 = captured st @
           [\<lparr>c_distinctId = e_distinctId x, c_event = ''$ai_embedding'',
             c_properties = Embedding_properties e x1\<rparr>,
            \<lparr>c_distinctId = e_distinctId x, c_event = ''$ai_embedding'',
             c_properties = Embedding_properties e x2\<rparr>] \<and>
         e_latency x1 =
           Some (case (case xopts1 of None \<Rightarrow> None | Some opt \<Rightarrow> ee_latency opt) of
                   None \<Rightarrow> of_int (n1 - e_startTime x) / 1000
                 | Some l \<Rightarrow> l) \<and>
         e_latency x2 =
           Some (case (case xopts2 of None \<Rightarrow> None | Some opt \<Rightarrow> ee_latency opt) of
                   None \<Rightarrow> of_int (n2 - e_startTime x) / 1000
                 | Some l \<Rightarrow> l))"
proof -
  have lg: "g_latency (Generation_end_apply n h opts) =
      Some (case (case opts of None \<Rightarrow> None | Some opt \<Rightarrow> ge_latency opt) of
              None \<Rightarrow> of_int (n - g_startTime h) / 1000
            | Some l \<Rightarrow> l)" for n h opts
    by (simp add: Generation_end_apply_def Let_def elapsed_def split: option.splits)
  have lx: "e_latency (Embedding_end_apply n h opts) =
      Some (case (case opts of None \<Rightarrow> None | Some opt \<Rightarrow> ee_latency opt) of
              None \<Rightarrow> of_int (n - e_startTime h) / 1000
            | Some l \<Rightarrow> l)" for n h opts
    by (simp add: Embedding_end_apply_def Let_def elapsed_def split: option.splits)
  have 1: "captured (snd (Trace_end e n2 (fst (Trace_end e n1 t topts1 st)) topts2
        (snd (Trace_end e n1 t topts1 st)))) = captured st @
           [\<lparr>c_distinctId = t_distinctId t, c_event = ''$ai_trace'',
             c_properties = Trace_properties e (fst (Trace_end e n1 t topts1 st))
               (of_int (n1 - t_startTime t) / 1000)\<rparr>,
            \<lparr>c_distinctId = t_distinctId t, c_event = ''$ai_trace'',
             c_properties = Trace_properties e
               (fst (Trace_end e n2 (fst (Trace_end e n1 t topts1 st)) topts2
                  (snd (Trace_end e n1 t topts1 st))))
               (of_int (n2 - t_startTime t) / 1000)\<rparr>]"
    by (simp add: Trace_end_captured [OF Trace_end_client [OF assms]]
        Trace_end_captured [OF assms] Trace_end_fst Trace_end_apply_unchanged elapsed_def)
  have 2: "captured (snd (Span_end e n2 (fst (Span_end e n1 s sopts1 st)) sopts2
        (snd (Span_end e n1 s sopts1 st)))) = captured st @
           [\<lparr>c_distinctId = s_distinctId s, c_event = ''$ai_span'',
             c_properties = Span_properties e (fst (Span_end e n1 s sopts1 st))
               (of_int (n1 - s_startTime s) / 1000)\<rparr>,
            \<lparr>c_distinctId = s_distinctId s, c_event = ''$ai_span'',
             c_properties = Span_properties e
               (fst (Span_end e n2 (fst (Span_end e n1 s sopts1 st)) sopts2
                  (snd (Span_end e n1 s sopts1 st))))
               (of_int (n2 - s_startTime s) / 1000)\<rparr>]"
    by (simp add: Span_end_captured [OF Span_end_client [OF assms]]
        Span_end_captured [OF assms] Span_end_fst Span_end_apply_unchanged elapsed_def)
  have 3: "captured (snd (Generation_end e n2 (fst (Generation_end e n1 g gopts1 st)) gopts2
        (snd (Generation_end e n1 g gopts1 st)))) = captured st @
           [\<lparr>c_distinctId = g_distinctId g, c_event = ''$ai_generation'',
             c_properties = Generation_properties e (fst (Generation_end e n1 g gopts1 st))\<rparr>,
            \<lparr>c_distinctId = g_distinctId g, c_event = ''$ai_generation'',
             c_properties = Generation_properties e
               (fst (Generation_end e n2 (fst (Generation_end e n1 g gopts1 st)) gopts2
                  (snd (Generation_end e n1 g gopts1 st))))\<rparr>]"
    by (simp add: Generation_end_captured [OF Generation_end_client [OF assms]]
        Generation_end_captured [OF assms] Generation_end_fst Generation_end_apply_unchanged)
  have 4: "captured (snd (Embedding_end e n2 (fst (Embedding_end e n1 x xopts1 st)) xopts2
        (snd (Embedding_end e n1 x xopts1 st)))) = captured st @
           [\<lparr>c_distinctId = e_distinctId x, c_event = ''$ai_embedding'',
             c_properties = Embedding_properties e (fst (Embedding_end e n1 x xopts1 st))\<rparr>,
            \<lparr>c_distinctId = e_distinctId x, c_event = ''$ai_embedding'',
             c_properties = Embedding_properties e
               (fst (Embedding_end e n2 (fst (Embedding_end e n1 x xopts1 st)) xopts2
                  (snd (Embedding_end e n1 x xopts1 st))))\<rparr>]"
    by (simp add: Embedding_end_captured [OF Embedding_end_client [OF assms]]
        Embedding_end_captured [OF assms] Embedding_end_fst Embedding_end_apply_unchanged)
  have 5: "g_latency (fst (Generation_end e n1 g gopts1 st)) =
           Some (case (case gopts1 of None \<Rightarrow> None | Some opt \<Rightarrow> ge_latency opt) of
                   None \<Rightarrow> of_int (n1 - g_startTime g) / 1000
                 | Some l \<Rightarrow> l)"
    "g_latency (fst (Generation_end e n2 (fst (Generation_end e n1 g gopts1 st)) gopts2
        (snd (Generation_end e n1 g gopts1 st)))) =
           Some (case (case gopts2 of None \<Rightarrow> None | Some opt \<Rightarrow> ge_latency opt) of
                   None \<Rightarrow> of_int (n2 - g_startTime g) / 1000
                 | Some l \<Rightarrow> l)"
    by (simp_all add: Generation_end_fst lg Generation_end_apply_unchanged cong: option.case_cong)
  have 6: "e_latency (fst (Embedding_end e n1 x xopts1 st)) =
           Some (case (case xopts1 of None \<Rightarrow> None | Some opt \<Rightarrow> ee_latency opt) of
                   None \<Rightarrow> of_int (n1 - e_startTime x) / 1000
                 | Some l \<Rightarrow> l)"
    "e_latency (fst (Embedding_end e n2 (fst (Embedding_end e n1 x xopts1 st)) xopts2
        (snd (Embedding_end e n1 x xopts1 st)))) =
           Some (case (case xopts2 of None \<Rightarrow> None | Some opt \<Rightarrow> ee_latency opt) of
                   None \<Rightarrow> of_int (n2 - e_startTime x) / 1000
                 | Some l \<Rightarrow> l)"
    by (simp_all add: Embedding_end_fst lx Embedding_end_apply_unchanged cong: option.case_cong)
  show ?thesis
    unfolding Let_def case_prod_beta
    using 1 2 3 4 5 6 by blast
qed

theorem end_twice_witness:
  "fst (getClient sample_env PostHogLLM_initial) \<noteq> None \<and>
   (let (s1, st1) = Span_end sample_env 1000 sample_span (Some no_span_end) PostHogLLM_initial;
        (s2, st2) = Span_end sample_env 3000 s1 (Some no_span_end) st1
    in map c_event (captured st2) = [''$ai_span'', ''$ai_span''] \<and>
       map (\<lambda>m. c_properties m ''$ai_latency'') (captured st2) =
         [Some (PNumber 1), Some (PNumber 3)]) \<and>
   (let (g1, st1) = Generation_end sample_env 1000 sample_generation
                      (Some (no_generation_end\<lparr>ge_latency := Some (1 / 2)\<rparr>)) PostHogLLM_initial;
        (g2, st2) = Generation_end sample_env 3000 g1 (Some no_generation_end) st1
    in map c_event (captured st2) = [''$ai_generation'', ''$ai_generation''] \<and>
       g_latency g1 = Some (1 / 2) \<and> g_latency g2 = Some 3)"
  using
    end_twice [OF getClient_sample, of 1000 sample_trace "Some no_trace_end" 3000
      "Some no_trace_end" sample_span "Some no_span_end" "Some no_span_end" sample_generation
      "Some (no_generation_end\<lparr>ge_latency := Some (1 / 2)\<rparr>)" "Some no_generation_end"
      sample_embedding "Some no_embedding_end" "Some no_embedding_end"]
    getClient_sample
  by (simp add: Let_def case_prod_beta captured_initial Span_properties_literal map_add_def
      custom_def spread_def end_fst Span_end_apply_properties
      sample_span_def sample_generation_def no_generation_end_def)

text \<open>
  C9 as written fails where no client is at hand: in a browser (\<^verbatim>\<open>window\<close> is defined)
  \<^verbatim>\<open>getClient\<close> returns \<^verbatim>\<open>null\<close>, and two calls of End on a trace, at 1000 and at 3000,
  hand no event to the sink.
\<close>

theorem end_twice_counterexample:
  "fst (getClient (sample_env\<lparr>window_undefined := False\<rparr>) PostHogLLM_initial) = None \<and>
   captured (snd (Trace_end (sample_env\<lparr>window_undefined := False\<rparr>) 3000
      (fst (Trace_end (sample_env\<lparr>window_undefined := False\<rparr>) 1000 sample_trace
         (Some no_trace_end) PostHogLLM_initial))
      (Some no_trace_end)
      (snd (Trace_end (sample_env\<lparr>window_undefined := False\<rparr>) 1000 sample_trace
         (Some no_trace_end) PostHogLLM_initial)))) = []"
proof -
  let ?e = "sample_env\<lparr>window_undefined := False\<rparr>"
  have g: "getClient ?e PostHogLLM_initial = (None, PostHogLLM_initial)"
    by (simp add: getClient_def Let_def sample_env_def PostHogLLM_initial_def)
  have s: "snd (Trace_end ?e 1000 sample_trace (Some no_trace_end) PostHogLLM_initial) =
      PostHogLLM_initial"
    by (simp add: Trace_end_def Let_def g)
  show ?thesis
    by (simp only: s Trace_end_captured_any) (simp add: g captured_initial)
qed

section \<open>C10: the output choices of a generation\<close>

text \<open>
  C10, as the code has it. With a client at hand, closing a generation emits one event. The
  output it holds then is the output of the end options when that is truthy, else the output
  it held before. When the held output is truthy, the \<^verbatim>\<open>$ai_output_choices\<close> entry is the
  \<^verbatim>\<open>JSON.stringify\<close> string of the output itself if it is a list, and otherwise of the
  one-element list holding the object with role \<^verbatim>\<open>"assistant"\<close> and the output as content.
  When no output is held, or the held output is falsy (\<^verbatim>\<open>null\<close>, \<^verbatim>\<open>false\<close>, \<^verbatim>\<open>0\<close>,
  \<^verbatim>\<open>""\<close>), the code adds no such field, and the entry is what the custom properties hold
  under \<^verbatim>\<open>$ai_output_choices\<close>: nothing, unless they have that key.
\<close>

theorem output_choices_field:
  assumes "fst (getClient e st) \<noteq> None"
  shows
    "\<exists>ev. captured (snd (Generation_end e now g gopts st)) = captured st @ [ev] \<and>
       g_output (fst (Generation_end e now g gopts st)) =
         (case gopts of
            None \<Rightarrow> g_output g
          | Some opt \<Rightarrow> (if truthy_any (ge_output opt) then ge_output opt else g_output g)) \<and>
       c_properties ev ''$ai_output_choices'' =
         (case g_output (fst (Generation_end e now g gopts st)) of
            None \<Rightarrow> custom (g_properties g) ''$ai_output_choices''
          | Some v \<Rightarrow>
              (if truthy v then
                 Some (PString (JSON_stringify e
                   (case v of
                      JArr xs \<Rightarrow> JArr xs
                    | _ \<Rightarrow> JArr [JObj [(''role'', JStr ''assistant''), (''content'', v)]])))
               else custom (g_properties g) ''$ai_output_choices''))"
proof -
  have out: "g_output (Generation_end_apply now g gopts) =
      (case gopts of
         None \<Rightarrow> g_output g
       | Some opt \<Rightarrow> (if truthy_any (ge_output opt) then ge_output opt else g_output g))"
    by (simp add: Generation_end_apply_def Let_def split: option.splits)
  have choices: "output_choices e v =
      JSON_stringify e
        (case v of
           JArr xs \<Rightarrow> JArr xs
         | _ \<Rightarrow> JArr [JObj [(''role'', JStr ''assistant''), (''content'', v)]])" for v
    by (cases v) (simp_all add: output_choices_def)
  have entry: "Generation_properties e (Generation_end_apply now g gopts) ''$ai_output_choices'' =
      (case g_output (Generation_end_apply now g gopts) of
         None \<Rightarrow> custom (g_properties g) ''$ai_output_choices''
       | Some v \<Rightarrow>
           (if truthy v then
              Some (PString (JSON_stringify e
                (case v of
                   JArr xs \<Rightarrow> JArr xs
                 | _ \<Rightarrow> JArr [JObj [(''role'', JStr ''assistant''), (''content'', v)]])))
            else custom (g_properties g) ''$ai_output_choices''))"
    by (simp add: Generation_properties_output_choices Generation_end_apply_properties
        truthy_any_def choices split: option.splits jsval.splits)
  show ?thesis
    by (simp only: Generation_end_captured [OF assms] Generation_end_fst out [symmetric] entry
        [symmetric]) simp
qed

theorem output_choices_field_witness:
  "fst (getClient sample_env PostHogLLM_initial) \<noteq> None \<and>
   (\<exists>ev. captured (snd (Generation_end sample_env 2000 sample_generation
            (Some (no_generation_end\<lparr>ge_output := Some
               (JArr [JObj [(''role'', JStr ''assistant''), (''content'', JStr ''Paris'')]])\<rparr>))
            PostHogLLM_initial)) = [ev] \<and>
      c_properties ev ''$ai_output_choices'' =
        Some (PString (JSON_stringify sample_env
          (JArr [JObj [(''role'', JStr ''assistant''), (''content'', JStr ''Paris'')]])))) \<and>
   (\<exists>ev. captured (snd (Generation_end sample_env 2000 sample_generation
            (Some (no_generation_end\<lparr>ge_output := Some
               (JObj [(''response'', JStr ''It is sunny'')])\<rparr>))
            PostHogLLM_initial)) = [ev] \<and>
      c_properties ev ''$ai_output_choices'' =
        Some (PString (JSON_stringify sample_env
          (JArr [JObj [(''role'', JStr ''assistant''),
                       (''content'', JObj [(''response'', JStr ''It is sunny'')])]])))) \<and>
   (\<exists>ev. captured (snd (Generation_end sample_env 2000 sample_generation
            (Some no_generation_end) PostHogLLM_initial)) = [ev] \<and>
      c_properties ev ''$ai_output_choices'' = None)"
  using
    output_choices_field [OF getClient_sample, of 2000 sample_generation
      "Some (no_generation_end\<lparr>ge_output := Some
         (JArr [JObj [(''role'', JStr ''assistant''), (''content'', JStr ''Paris'')]])\<rparr>)"]
    output_choices_field [OF getClient_sample, of 2000 sample_generation
      "Some (no_generation_end\<lparr>ge_output := Some
         (JObj [(''response'', JStr ''It is sunny'')])\<rparr>)"]
    output_choices_field [OF getClient_sample, of 2000 sample_generation
      "Some no_generation_end"]
    getClient_sample
  by (auto simp add: end_fst end_apply_defs sample_defs captured_initial truthy_any_def
      truthy_error_def Let_def custom_def spread_def)

text \<open>
  C10 as written fails where the output is present and falsy: a generation that holds the
  output \<^verbatim>\<open>""\<close>, not a list, is closed without an output-choices field.
\<close>

theorem output_choices_field_counterexample:
  "g_output (fst (Generation_end sample_env 2000 (sample_generation\<lparr>g_output := Some (JStr [])\<rparr>)
      (Some no_generation_end) PostHogLLM_initial)) = Some (JStr []) \<and>
   c_properties (last (captured (snd (Generation_end sample_env 2000
      (sample_generation\<lparr>g_output := Some (JStr [])\<rparr>)
      (Some no_generation_end) PostHogLLM_initial)))) ''$ai_output_choices'' = None"
  by (simp add: Generation_end_captured [OF getClient_sample] Generation_end_fst
      Generation_properties_output_choices Generation_end_apply_def Let_def
      sample_generation_def no_generation_end_def
      captured_initial truthy_any_def truthy_error_def custom_def spread_def)


end
